theory Spec2Isabelle
  imports Complex_Main "HOL-Library.Multiset"
begin

section \<open>JavaScript numbers and values\<close>

text \<open>
  A JavaScript number is modelled as an exact real extended by the two infinities and
  NaN, and every operation below follows the IEEE rules for the special values. The
  sign of zero is not modelled. The rounding of doubles is not modelled in the values
  the chart writes out; where the code tests a computed sum against zero (the total of
  the pie values) the sum goes through the rounding, see \<open>addDouble\<close>.
  A value that reaches the chart's numeric helpers is \<open>undefined\<close>, \<open>null\<close> or a number.
\<close>

datatype jsnum = NaN | NInf | Fin real | PInf

datatype jsval = Undefined | Null | Num jsnum

fun js_neg :: "jsnum \<Rightarrow> jsnum" where
  "js_neg NaN = NaN"
| "js_neg NInf = PInf"
| "js_neg PInf = NInf"
| "js_neg (Fin a) = Fin (- a)"

fun js_add :: "jsnum \<Rightarrow> jsnum \<Rightarrow> jsnum" where
  "js_add NaN _ = NaN"
| "js_add _ NaN = NaN"
| "js_add PInf NInf = NaN"
| "js_add NInf PInf = NaN"
| "js_add PInf _ = PInf"
| "js_add _ PInf = PInf"
| "js_add NInf _ = NInf"
| "js_add _ NInf = NInf"
| "js_add (Fin a) (Fin b) = Fin (a + b)"

definition js_sub :: "jsnum \<Rightarrow> jsnum \<Rightarrow> jsnum" where
  "js_sub a b = js_add a (js_neg b)"

text \<open>The sign of a number as the product and the quotient see it: 0 for zero.\<close>

fun js_sign :: "jsnum \<Rightarrow> int" where
  "js_sign NaN = 0"
| "js_sign NInf = - 1"
| "js_sign PInf = 1"
| "js_sign (Fin a) = (if a < 0 then - 1 else if a = 0 then 0 else 1)"

definition js_inf :: "int \<Rightarrow> jsnum" where
  "js_inf s = (if s < 0 then NInf else if s = 0 then NaN else PInf)"

fun js_mul :: "jsnum \<Rightarrow> jsnum \<Rightarrow> jsnum" where
  "js_mul NaN _ = NaN"
| "js_mul _ NaN = NaN"
| "js_mul (Fin a) (Fin b) = Fin (a * b)"
| "js_mul a b = js_inf (js_sign a * js_sign b)"

text \<open>
  Division: a finite number over zero is an infinity of the numerator's sign (the zero
  is taken as positive), zero over zero and infinity over infinity are NaN.
\<close>

fun js_div :: "jsnum \<Rightarrow> jsnum \<Rightarrow> jsnum" where
  "js_div NaN _ = NaN"
| "js_div _ NaN = NaN"
| "js_div (Fin a) (Fin b) = (if b = 0 then js_inf (js_sign (Fin a)) else Fin (a / b))"
| "js_div (Fin a) _ = Fin 0"
| "js_div a (Fin b) = js_inf (js_sign a * (if b < 0 then - 1 else 1))"
| "js_div _ _ = NaN"

fun js_lt :: "jsnum \<Rightarrow> jsnum \<Rightarrow> bool" where
  "js_lt NaN _ = False"
| "js_lt _ NaN = False"
| "js_lt _ NInf = False"
| "js_lt NInf _ = True"
| "js_lt PInf _ = False"
| "js_lt _ PInf = True"
| "js_lt (Fin a) (Fin b) = (a < b)"

fun js_ge :: "jsnum \<Rightarrow> jsnum \<Rightarrow> bool" where
  "js_ge NaN _ = False"
| "js_ge _ NaN = False"
| "js_ge _ NInf = True"
| "js_ge NInf _ = False"
| "js_ge PInf _ = True"
| "js_ge _ PInf = False"
| "js_ge (Fin a) (Fin b) = (a \<ge> b)"

definition js_gt :: "jsnum \<Rightarrow> jsnum \<Rightarrow> bool" where
  "js_gt a b = js_lt b a"

text \<open>\<open>Math.min\<close> and \<open>Math.max\<close> of two numbers: NaN when either is NaN.\<close>

definition js_min :: "jsnum \<Rightarrow> jsnum \<Rightarrow> jsnum" where
  "js_min a b = (if a = NaN \<or> b = NaN then NaN else if js_lt b a then b else a)"

definition js_max :: "jsnum \<Rightarrow> jsnum \<Rightarrow> jsnum" where
  "js_max a b = (if a = NaN \<or> b = NaN then NaN else if js_lt a b then b else a)"

text \<open>\<open>Number(v)\<close>: \<open>undefined\<close> becomes NaN, but \<open>null\<close> becomes 0.\<close>

fun toNumber :: "jsval \<Rightarrow> jsnum" where
  "toNumber Undefined = NaN"
| "toNumber Null = Fin 0"
| "toNumber (Num n) = n"

fun isFinite :: "jsnum \<Rightarrow> bool" where
  "isFinite (Fin _) = True"
| "isFinite _ = False"

text \<open>Truthiness of a number (\<open>x || d\<close>, \<open>if (x)\<close>): 0 and NaN are falsy.\<close>

fun truthy :: "jsnum \<Rightarrow> bool" where
  "truthy NaN = False"
| "truthy (Fin a) = (a \<noteq> 0)"
| "truthy _ = True"

text \<open>\<open>v || 0\<close> for an option that may be missing, \<open>null\<close> or a number.\<close>

fun orZero :: "jsval \<Rightarrow> jsnum" where
  "orZero (Num n) = (if truthy n then n else Fin 0)"
| "orZero _ = Fin 0"

text \<open>\<open>v != null ? v : d\<close>.\<close>

fun orDefault :: "jsval \<Rightarrow> jsnum \<Rightarrow> jsnum" where
  "orDefault (Num n) d = n"
| "orDefault _ d = d"

text \<open>\<open>a[i]\<close> on an array whose holes and \<open>null\<close> entries are \<open>None\<close>: \<open>undefined\<close> out of range.\<close>

definition at_index :: "'a option list \<Rightarrow> nat \<Rightarrow> 'a option" where
  "at_index xs i = (if i < length xs then xs ! i else None)"

section \<open>Formatting helpers\<close>

text \<open>Decimal digits of a natural number and of an integer, as \<open>String(n)\<close> prints them.\<close>

definition digit_char :: "nat \<Rightarrow> char" where
  "digit_char d = (''0123456789'' ! (d mod 10))"

fun show_nat :: "nat \<Rightarrow> string" where
  "show_nat n = (if n < 10 then [digit_char n] else show_nat (n div 10) @ [digit_char (n mod 10)])"

declare show_nat.simps [simp del]

definition show_int :: "int \<Rightarrow> string" where
  "show_int i = (if i < 0 then CHR ''-'' # show_nat (nat (- i)) else show_nat (nat i))"

text \<open>\<open>Math.round(x)\<close> is \<open>floor (x + 1/2)\<close>; the special values are kept.\<close>

fun js_round :: "jsnum \<Rightarrow> jsnum" where
  "js_round (Fin a) = Fin (of_int \<lfloor>a + 1 / 2\<rfloor>)"
| "js_round n = n"

text \<open>
  The string of a number that \<open>Math.round\<close> returned (an integer below \<open>10^21\<close> in
  absolute value prints as its digits).
\<close>

fun show_rounded :: "jsnum \<Rightarrow> string" where
  "show_rounded NaN = ''NaN''"
| "show_rounded PInf = ''Infinity''"
| "show_rounded NInf = ''-Infinity''"
| "show_rounded (Fin a) = show_int \<lfloor>a\<rfloor>"

text \<open>\<open>_fmtPct(x)\<close>, where \<open>None\<close> is \<open>null\<close>.\<close>

definition fmtPct :: "jsnum option \<Rightarrow> string" where
  "fmtPct x = (case x of None \<Rightarrow> ''-''
     | Some n \<Rightarrow> if n = NaN then ''-'' else show_rounded (js_round (js_mul n (Fin 100))) @ ''%'')"

text \<open>
  \<open>_fmtInt(n)\<close>. \<open>toLocaleString('ko-KR')\<close> is the host's locale formatting and is a
  parameter of the model.
\<close>

definition fmtInt :: "(jsnum \<Rightarrow> string) \<Rightarrow> jsval \<Rightarrow> string" where
  "fmtInt toLocaleString n = (case n of Undefined \<Rightarrow> ''-'' | Null \<Rightarrow> ''-''
     | Num m \<Rightarrow> if m = NaN then ''-'' else toLocaleString m)"

section \<open>Colour scale\<close>

text \<open>\<open>_clamp01(v)\<close>: \<open>None\<close> is the \<open>null\<close> it returns for a non-finite \<open>Number(v)\<close>.\<close>

definition clamp01 :: "jsval \<Rightarrow> jsnum option" where
  "clamp01 v = (let n = toNumber v in
     if \<not> isFinite n then None else Some (js_min (Fin 1) (js_max (Fin 0) n)))"

definition defaultThresholds :: "jsnum list" where
  "defaultThresholds = [Fin 0.8, Fin 0.6, Fin 0.4, Fin 0.2]"

definition defaultColors :: "string option list" where
  "defaultColors = [Some ''#00085A'', Some ''#1F48FF'', Some ''#79a1ee'', Some ''#99d9f2'', Some ''#D7D7D7'']"

text \<open>
  \<open>Array.isArray(a) && a.length ? a : default\<close>: the argument is \<open>None\<close> when it is
  not an array.
\<close>

definition orDefaultArray :: "'a list option \<Rightarrow> 'a list \<Rightarrow> 'a list" where
  "orDefaultArray a d = (case a of None \<Rightarrow> d | Some xs \<Rightarrow> if xs = [] then d else xs)"

text \<open>The fallback: \<open>cs[cs.length - 1]\<close> unless the list is empty or that entry is null.\<close>

definition fallbackOf :: "string option list \<Rightarrow> string" where
  "fallbackOf cs = (let lastIndex = int (length cs) - 1 in
     if lastIndex \<ge> 0
     then (case at_index cs (nat lastIndex) of Some c \<Rightarrow> c | None \<Rightarrow> ''#D7D7D7'')
     else ''#D7D7D7'')"

text \<open>
  The threshold loop \<open>for (i = 0; i < th.length; i++) if (r >= th[i]) ...\<close>: the index
  at which it returns, \<open>None\<close> when it runs to the end. The list argument is the part of
  \<open>th\<close> from index \<open>i\<close> on.
\<close>

fun thresholdScan :: "jsnum \<Rightarrow> jsnum list \<Rightarrow> nat \<Rightarrow> nat option" where
  "thresholdScan r [] i = None"
| "thresholdScan r (t # ts) i = (if js_ge r t then Some i else thresholdScan r ts (Suc i))"

text \<open>The closure that \<open>_makeColorForRate(thresholds, colors)\<close> returns, applied to \<open>rRaw\<close>.\<close>

definition makeColorForRate :: "jsnum list option \<Rightarrow> string option list option \<Rightarrow> jsval \<Rightarrow> string" where
  "makeColorForRate thresholds colors rRaw =
     (let th = orDefaultArray thresholds defaultThresholds;
          cs = orDefaultArray colors defaultColors;
          fallback = fallbackOf cs
      in case clamp01 rRaw of
           None \<Rightarrow> fallback
         | Some r \<Rightarrow>
             (case thresholdScan r th 0 of
                None \<Rightarrow> fallback
              | Some i \<Rightarrow> (case at_index cs i of None \<Rightarrow> fallback | Some candidate \<Rightarrow> candidate)))"

text \<open>
  The position in the colour list that a lookup selects: the index of the first
  threshold met, and the slot after the last threshold (the "below all thresholds"
  colour) when none is met or the input is unknown.
\<close>

definition selectedIndex :: "jsnum list \<Rightarrow> jsval \<Rightarrow> nat" where
  "selectedIndex th rRaw = (case clamp01 rRaw of None \<Rightarrow> length th
     | Some r \<Rightarrow> (case thresholdScan r th 0 of None \<Rightarrow> length th | Some i \<Rightarrow> i))"

section \<open>Data\<close>

text \<open>
  A datum is \<open>null\<close>, a bare number or a record with the fields \<open>count\<close> and \<open>rate\<close>
  (a field that is absent reads as \<open>Undefined\<close>). The data object is an association
  list in the enumeration order of \<open>for (name in dataMap)\<close>; a name that is absent
  reads as \<open>undefined\<close>, here \<open>None\<close>.
\<close>

datatype datum = DNull | DNum jsnum | DRec (count: jsval) (rate: jsval)

type_synonym dataMap = "(string \<times> datum) list"

text \<open>\<open>dataMap || {}\<close>, for an argument that may be missing.\<close>

definition orEmpty :: "('a \<times> 'b) list option \<Rightarrow> ('a \<times> 'b) list" where
  "orEmpty m = (case m of None \<Rightarrow> [] | Some xs \<Rightarrow> xs)"

text \<open>\<open>opts.data && opts.data[name]\<close>\<close>

definition dataLookup :: "dataMap option \<Rightarrow> string \<Rightarrow> datum option" where
  "dataLookup dataMap name = map_of (orEmpty dataMap) name"

section \<open>Bar list\<close>

text \<open>\<open>(typeof v === 'number') ? v : (v && v.rate)\<close>\<close>

fun rateOf :: "datum \<Rightarrow> jsval" where
  "rateOf (DNum n) = Num n"
| "rateOf DNull = Null"
| "rateOf (DRec c r) = r"

text \<open>\<open>rate == null ? -Infinity : rate\<close>\<close>

fun rateOrNegInf :: "jsval \<Rightarrow> jsnum" where
  "rateOrNegInf (Num n) = n"
| "rateOrNegInf _ = NInf"

text \<open>
  \<open>Array.prototype.sort(comparefn)\<close> belongs to the host. It is modelled as a stable
  insertion sort that reads the comparator as the language does: \<open>x\<close> goes after \<open>y\<close>
  only when \<open>comparefn(x, y) > 0\<close>, and a NaN result counts as 0.
\<close>

fun insertBy :: "('a \<Rightarrow> 'a \<Rightarrow> jsnum) \<Rightarrow> 'a \<Rightarrow> 'a list \<Rightarrow> 'a list" where
  "insertBy cmp x [] = [x]"
| "insertBy cmp x (y # ys) = (if js_gt (cmp x y) (Fin 0) then y # insertBy cmp x ys else x # y # ys)"

definition arraySort :: "('a \<Rightarrow> 'a \<Rightarrow> jsnum) \<Rightarrow> 'a list \<Rightarrow> 'a list" where
  "arraySort cmp xs = foldr (insertBy cmp) xs []"

text \<open>The comparator \<open>function (a, b) { return b[1] - a[1]; }\<close>\<close>

definition byRateDesc :: "string \<times> jsnum \<Rightarrow> string \<times> jsnum \<Rightarrow> jsnum" where
  "byRateDesc a b = js_sub (snd b) (snd a)"

text \<open>The array \<open>entries\<close> of \<open>_buildBars\<close> after its sort.\<close>

definition barEntries :: "dataMap \<Rightarrow> (string \<times> jsnum) list" where
  "barEntries dataMap =
     arraySort byRateDesc (map (\<lambda>(name, v). (name, rateOrNegInf (rateOf v))) dataMap)"

text \<open>
  A row of the bar list: the text of the name label, the background and the width (in
  px) of the bar, and the text of the value label. The CSS properties that
  \<open>_buildBars\<close> copies from its options or sets to constants are left out.
\<close>

record barRow =
  rowLabel :: string
  barBackground :: string
  barWidth :: jsnum
  rowValue :: string

text \<open>\<open>_clamp01(rRaw) || 0\<close>\<close>

definition clampOrZero :: "jsnum \<Rightarrow> jsnum" where
  "clampOrZero rRaw = (case clamp01 (Num rRaw) of None \<Rightarrow> Fin 0
     | Some r \<Rightarrow> if truthy r then r else Fin 0)"

text \<open>The body of the row loop; \<open>barOptsWidth\<close> is \<open>barOpts.width\<close>.\<close>

definition barRowOf :: "(jsval \<Rightarrow> string) \<Rightarrow> jsval \<Rightarrow> string \<times> jsnum \<Rightarrow> barRow" where
  "barRowOf colorForRate barOptsWidth entry =
     (let name = fst entry;
          rRaw = snd entry;
          r = clampOrZero rRaw;
          bwBase = orDefault barOptsWidth (Fin 100);
          bw = js_mul bwBase r
      in \<lparr>rowLabel = name, barBackground = colorForRate (Num r), barWidth = bw,
           rowValue = fmtPct (Some r)\<rparr>)"

text \<open>\<open>_buildBars\<close>: the rows of the list that it appends to \<open>wrap\<close>.\<close>

definition buildBars :: "dataMap option \<Rightarrow> (jsval \<Rightarrow> string) \<Rightarrow> jsval \<Rightarrow> barRow list" where
  "buildBars dataMap colorForRate barOptsWidth =
     map (barRowOf colorForRate barOptsWidth) (barEntries (orEmpty dataMap))"

section \<open>Pie glyph\<close>

text \<open>An item of pie data: \<open>{label, data, color}\<close>, each of which may be absent.\<close>

record pieItem =
  itemLabel :: "string option"
  itemData :: jsval
  itemColor :: "string option"

text \<open>
  A slice path. Its \<open>d\<close> attribute is a function of the glyph's centre and radii and of
  the slice's start angle and angle (in degrees) through \<open>Math.cos\<close> and \<open>Math.sin\<close>;
  the model keeps those arguments and the large-arc flag instead of the string.
\<close>

record pieSlice =
  startAngle :: jsnum
  sliceAngle :: jsnum
  largeArcFlag :: nat
  sliceFill :: string
  sliceTitle :: "string option"

record pieOpts =
  optRadius :: jsval
  optInnerRadius :: jsval
  optStrokeWidth :: jsval
  optStrokeColor :: "string option"

record pieGlyph =
  centerX :: jsnum
  centerY :: jsnum
  radius :: jsnum
  innerRadius :: jsnum
  strokeWidth :: jsnum
  strokeColor :: string
  slices :: "pieSlice list"

text \<open>
  The sum of two numbers as a double computes it: the exact sum, rounded by
  \<open>toDouble\<close>, the rounding of a real to the nearest double (which is an infinity on
  overflow). The rounding belongs to the host's arithmetic and is a parameter.
\<close>

definition addDouble :: "(real \<Rightarrow> jsnum) \<Rightarrow> jsnum \<Rightarrow> jsnum \<Rightarrow> jsnum" where
  "addDouble toDouble a b = (case js_add a b of Fin x \<Rightarrow> toDouble x | n \<Rightarrow> n)"

text \<open>\<open>total += (data[i].data || 0)\<close> over the items; \<open>tot\<close> is the running \<open>total\<close>.\<close>

fun pieTotal :: "(real \<Rightarrow> jsnum) \<Rightarrow> jsnum \<Rightarrow> pieItem list \<Rightarrow> jsnum" where
  "pieTotal toDouble tot [] = tot"
| "pieTotal toDouble tot (item # items) =
     pieTotal toDouble (addDouble toDouble tot (orZero (itemData item))) items"

text \<open>\<open>s || d\<close> for a string that may be absent: the empty string is falsy.\<close>

definition strOr :: "string option \<Rightarrow> string \<Rightarrow> string" where
  "strOr s d = (case s of None \<Rightarrow> d | Some t \<Rightarrow> if t = [] then d else t)"

text \<open>The slice loop, from the current angle on.\<close>

fun pieLoop :: "jsnum \<Rightarrow> jsnum \<Rightarrow> pieItem list \<Rightarrow> pieSlice list" where
  "pieLoop tot currentAngle [] = []"
| "pieLoop tot currentAngle (item # items) =
     (let value = orZero (itemData item);
          percentage = js_div value tot;
          angle = js_mul percentage (Fin 360)
      in if angle = Fin 0 then pieLoop tot currentAngle items
         else \<lparr>startAngle = currentAngle, sliceAngle = angle,
                largeArcFlag = (if js_gt angle (Fin 180) then 1 else 0),
                sliceFill = strOr (itemColor item) ''#cccccc'',
                sliceTitle = (case itemLabel item of None \<Rightarrow> None
                   | Some l \<Rightarrow> if l = [] then None
                       else Some (l @ '': '' @ show_rounded (js_round (js_mul percentage (Fin 100))) @ ''%''))\<rparr>
              # pieLoop tot (js_add currentAngle angle) items)"

text \<open>\<open>_createPieChart(cx, cy, data, opts)\<close>: the group \<open>g\<close> it returns.\<close>

definition createPieChart :: "(real \<Rightarrow> jsnum) \<Rightarrow> jsnum \<Rightarrow> jsnum \<Rightarrow> pieItem list \<Rightarrow> pieOpts \<Rightarrow> pieGlyph" where
  "createPieChart toDouble cx cy data opts =
     (let g = \<lparr>centerX = cx, centerY = cy,
               radius = orDefault (optRadius opts) (Fin 20),
               innerRadius = orDefault (optInnerRadius opts) (Fin 0),
               strokeWidth = orDefault (optStrokeWidth opts) (Fin 1),
               strokeColor = (case optStrokeColor opts of None \<Rightarrow> ''#ffffff'' | Some c \<Rightarrow> c),
               slices = []\<rparr>;
          tot = pieTotal toDouble (Fin 0) data
      in if tot = Fin 0 then g
         else g\<lparr>slices := pieLoop tot (Fin (- 90)) data\<rparr>)"

section \<open>The SVG surface\<close>

text \<open>
  \<open>getBBox()\<close> of an element, and an element of the loaded document: the identity of
  the element object (\<open>node\<close>, what \<open>===\<close> compares and what an expando property such as
  \<open>_originalStyles\<close> hangs on), its \<open>id\<close> attribute (if any), whether it is a \<open>path\<close>,
  and its box. Two elements may carry the same \<open>id\<close>. The list of elements is in
  document order; the region shapes of a map are siblings, so
  \<open>p.parentNode.appendChild(p)\<close> moves \<open>p\<close> to the end of the list.
\<close>

record elemBox =
  boxX :: jsnum
  boxY :: jsnum
  boxWidth :: jsnum
  boxHeight :: jsnum

record svgElem =
  node :: nat
  elemId :: "string option"
  isPath :: bool
  bbox :: elemBox

text \<open>A value that \<open>_setCss\<close> writes: a keyword, or a number followed by \<open>px\<close>.\<close>

datatype cssValue = Keyword string | Px jsnum

text \<open>An inline style: property name to value and \<open>!important\<close> flag.\<close>

type_synonym style = "string \<rightharpoonup> string \<times> bool"

text \<open>\<open>style.setProperty(prop, v, priority)\<close>: an empty value removes the property.\<close>

definition setProperty :: "string \<Rightarrow> string \<Rightarrow> bool \<Rightarrow> style \<Rightarrow> style" where
  "setProperty prop v important st = (if v = [] then st(prop := None) else st(prop \<mapsto> (v, important)))"

definition removeProperty :: "string \<Rightarrow> style \<Rightarrow> style" where
  "removeProperty prop st = st(prop := None)"

text \<open>\<open>style.prop\<close> read as a string: empty when the property is not set.\<close>

definition getProperty :: "style \<Rightarrow> string \<Rightarrow> string" where
  "getProperty st prop = (case st prop of None \<Rightarrow> [] | Some (v, _) \<Rightarrow> v)"

text \<open>The frame \<open>{x, y, w, h, cx}\<close> that \<open>_computeBBox\<close> returns.\<close>

record frame =
  frameX :: jsnum
  frameY :: jsnum
  frameW :: jsnum
  frameH :: jsnum
  frameCx :: jsnum

text \<open>A label with the pie glyph that follows it in the layer, if any.\<close>

record regionLabel =
  labelX :: jsnum
  labelY :: jsnum
  labelText :: string
  labelPie :: "pieGlyph option"

text \<open>
  A callout: the points of the leader line (the \<open>M\<close> and \<open>L\<close> commands of its \<open>d\<close>),
  the pin's centre, and the text with its position and anchor.
\<close>

record callout =
  linePoints :: "(jsnum \<times> jsnum) list"
  pinX :: jsnum
  pinY :: jsnum
  textX :: jsnum
  textY :: jsnum
  textAnchor :: string
  textContent :: string

text \<open>The six properties saved in \<open>p._originalStyles\<close>.\<close>

record originalStyle =
  origStroke :: string
  origStrokeWidth :: string
  origOpacity :: string
  origCursor :: string
  origFilter :: string
  origFill :: string

text \<open>
  The surface and what the chart adds to it. \<open>viewBox\<close> holds the four numbers of the
  attribute (\<open>None\<close> when the attribute is absent or empty); \<open>authorFills\<close> tells
  whether the \<open>fill\<close> declarations and attributes of the loaded document are still
  there; \<open>styles\<close> and \<open>originalStyles\<close> are the inline style and the saved
  \<open>_originalStyles\<close> of each element object; \<open>listeners\<close> are the names and ids that the
  registered handlers close over, each with the element the handlers are attached to;
  \<open>filters\<close> are the ids of the drop-shadow filters added to \<open>defs\<close>.
\<close>

record svg =
  elements :: "svgElem list"
  viewBox :: "(jsnum \<times> jsnum \<times> jsnum \<times> jsnum) option"
  rootStyle :: "string \<rightharpoonup> cssValue"
  authorFills :: bool
  styles :: "nat \<Rightarrow> style"
  labelLayers :: "regionLabel list list"
  calloutGroups :: "callout list list"
  originalStyles :: "nat \<rightharpoonup> originalStyle"
  listeners :: "(string \<times> string \<times> nat) list"
  filters :: "string list"

type_synonym codeMap = "(string \<times> string) list"

text \<open>\<open>svg.getElementById(code)\<close>: the first element in document order with that \<open>id\<close>.\<close>

definition getElementById :: "svg \<Rightarrow> string \<Rightarrow> svgElem option" where
  "getElementById s code = find (\<lambda>e. elemId e = Some code) (elements s)"

text \<open>\<open>_setCss(el, prop, v)\<close> on the style of the mount or of the surface's root.\<close>

definition setCss :: "(string \<rightharpoonup> cssValue) \<Rightarrow> string \<Rightarrow> cssValue option \<Rightarrow> (string \<rightharpoonup> cssValue)" where
  "setCss st prop v = (case v of None \<Rightarrow> st(prop := None) | Some x \<Rightarrow> st(prop \<mapsto> x))"

definition clearSvgFillStyles :: "svg \<Rightarrow> svg" where
  "clearSvgFillStyles s = s\<lparr>authorFills := False\<rparr>"

section \<open>Painting and labels\<close>

text \<open>\<open>_paintRegions\<close>: the loop over the code map.\<close>

fun paintRegions :: "svg \<Rightarrow> codeMap \<Rightarrow> (string \<Rightarrow> jsval) \<Rightarrow> (jsval \<Rightarrow> string) \<Rightarrow> svg" where
  "paintRegions s [] dataGetter colorForRate = s"
| "paintRegions s ((name, code) # rest) dataGetter colorForRate =
     (case getElementById s code of
        None \<Rightarrow> paintRegions s rest dataGetter colorForRate
      | Some path \<Rightarrow>
          paintRegions
            (s\<lparr>styles := (styles s)(node path := setProperty ''fill'' (colorForRate (dataGetter name)) True
                                     (styles s (node path)))\<rparr>)
            rest dataGetter colorForRate)"

record pieLabelOpts =
  piePositions :: "string \<rightharpoonup> string"
  piePosition :: "string option"
  pieGap :: jsval
  pieRadius :: jsval
  pieOffsets :: "string \<rightharpoonup> jsnum \<times> jsnum"
  pieInnerRadius :: jsval
  pieStrokeWidth :: jsval
  pieStrokeColor :: "string option"

text \<open>
  The label options that decide where labels go; font and colour attributes are copied
  from the options to the text node and are left out.
\<close>

record labelOpts =
  minWidth :: jsval
  minHeight :: jsval
  labelOffsets :: "string \<rightharpoonup> jsnum \<times> jsnum"
  pieChart :: "pieLabelOpts option"

definition noPieLabelOpts :: pieLabelOpts where
  "noPieLabelOpts = \<lparr>piePositions = Map.empty, piePosition = None, pieGap = Undefined,
     pieRadius = Undefined, pieOffsets = Map.empty, pieInnerRadius = Undefined,
     pieStrokeWidth = Undefined, pieStrokeColor = None\<rparr>"

definition noLabelOpts :: labelOpts where
  "noLabelOpts = \<lparr>minWidth = Undefined, minHeight = Undefined, labelOffsets = Map.empty,
     pieChart = None\<rparr>"

text \<open>\<open>(offsets && offsets[name]) || [0, 0]\<close>\<close>

definition offsetOf :: "(string \<rightharpoonup> jsnum \<times> jsnum) \<Rightarrow> string \<Rightarrow> jsnum \<times> jsnum" where
  "offsetOf offs name = (case offs name of None \<Rightarrow> (Fin 0, Fin 0) | Some off \<Rightarrow> off)"

text \<open>The pie of a label at \<open>(cx, cy)\<close>: the \<open>if (pieChartData[name])\<close> block.\<close>

definition labelPieOf :: "(real \<Rightarrow> jsnum) \<Rightarrow> pieLabelOpts \<Rightarrow> string \<Rightarrow> jsnum \<Rightarrow> jsnum \<Rightarrow> pieItem list \<Rightarrow> pieGlyph" where
  "labelPieOf toDouble pieOpts name cx cy items =
     (let position = strOr (piePositions pieOpts name) (strOr (piePosition pieOpts) ''right'');
          gap = orDefault (pieGap pieOpts) (Fin 15);
          r = orDefault (pieRadius pieOpts) (Fin 15);
          pieX = (if position = ''left'' then js_sub cx (js_add gap r)
                  else if position = ''right'' then js_add cx (js_add gap r) else cx);
          pieY = (if position = ''top'' then js_sub cy (js_add gap r)
                  else if position = ''bottom'' then js_add cy (js_add gap r) else cy);
          pieOffset = offsetOf (pieOffsets pieOpts) name
      in createPieChart toDouble (js_add pieX (fst pieOffset)) (js_add pieY (snd pieOffset)) items
           \<lparr>optRadius = Num r,
            optInnerRadius = Num (orDefault (pieInnerRadius pieOpts) (Fin 0)),
            optStrokeWidth = Num (orDefault (pieStrokeWidth pieOpts) (Fin 0.5)),
            optStrokeColor = Some (strOr (pieStrokeColor pieOpts) ''#ffffff'')\<rparr>)"

text \<open>The labels that the loop of \<open>_placeRegionLabels\<close> appends to its layer.\<close>

fun labelLoop :: "(real \<Rightarrow> jsnum) \<Rightarrow> svg \<Rightarrow> codeMap \<Rightarrow> labelOpts \<Rightarrow> (string \<rightharpoonup> pieItem list) \<Rightarrow> regionLabel list" where
  "labelLoop toDouble s [] lo pieChartData = []"
| "labelLoop toDouble s ((name, code) # rest) lo pieChartData =
     (case getElementById s code of
        None \<Rightarrow> labelLoop toDouble s rest lo pieChartData
      | Some path \<Rightarrow>
          (let b = bbox path;
               minW = orDefault (minWidth lo) (Fin 16);
               minH = orDefault (minHeight lo) (Fin 12)
           in if js_lt (boxWidth b) minW \<or> js_lt (boxHeight b) minH
              then labelLoop toDouble s rest lo pieChartData
              else
                (let off = offsetOf (labelOffsets lo) name;
                     cx = js_add (js_add (boxX b) (js_div (boxWidth b) (Fin 2))) (fst off);
                     cy = js_add (js_add (boxY b) (js_div (boxHeight b) (Fin 2))) (snd off);
                     pieOpts = (case pieChart lo of None \<Rightarrow> noPieLabelOpts | Some po \<Rightarrow> po)
                 in \<lparr>labelX = cx, labelY = cy, labelText = name,
                      labelPie = map_option (labelPieOf toDouble pieOpts name cx cy) (pieChartData name)\<rparr>
                    # labelLoop toDouble s rest lo pieChartData)))"

definition placeRegionLabels :: "(real \<Rightarrow> jsnum) \<Rightarrow> svg \<Rightarrow> codeMap \<Rightarrow> labelOpts option \<Rightarrow> (string \<rightharpoonup> pieItem list) option \<Rightarrow> svg" where
  "placeRegionLabels toDouble s codeMap lo pieChartData =
     s\<lparr>labelLayers := labelLayers s @
          [labelLoop toDouble s codeMap (case lo of None \<Rightarrow> noLabelOpts | Some l \<Rightarrow> l)
             (case pieChartData of None \<Rightarrow> Map.empty | Some d \<Rightarrow> d)]\<rparr>"

section \<open>Frame\<close>

text \<open>The running minima and maxima of \<open>_computeBBox\<close> over the boxes of the paths.\<close>

fun bboxLoop :: "jsnum \<times> jsnum \<times> jsnum \<times> jsnum \<Rightarrow> elemBox list \<Rightarrow> jsnum \<times> jsnum \<times> jsnum \<times> jsnum" where
  "bboxLoop acc [] = acc"
| "bboxLoop (minX, minY, maxX, maxY) (b # bs) =
     bboxLoop (js_min minX (boxX b), js_min minY (boxY b),
               js_max maxX (js_add (boxX b) (boxWidth b)),
               js_max maxY (js_add (boxY b) (boxHeight b))) bs"

definition frameOf :: "elemBox list \<Rightarrow> frame" where
  "frameOf boxes = (case bboxLoop (PInf, PInf, NInf, NInf) boxes of
     (minX, minY, maxX, maxY) \<Rightarrow>
       \<lparr>frameX = minX, frameY = minY, frameW = js_sub maxX minX, frameH = js_sub maxY minY,
        frameCx = js_div (js_add minX maxX) (Fin 2)\<rparr>)"

text \<open>
  \<open>svg.querySelectorAll('path')\<close>: the paths of the document and the slice paths of the
  pie glyphs placed so far. The box of a generated slice is the layout engine's, the
  parameter \<open>sliceBox\<close>.
\<close>

definition pathBoxes :: "(pieGlyph \<Rightarrow> pieSlice \<Rightarrow> elemBox) \<Rightarrow> svg \<Rightarrow> elemBox list" where
  "pathBoxes sliceBox s =
     map bbox (filter isPath (elements s)) @
     concat (map (\<lambda>l. case labelPie l of None \<Rightarrow> [] | Some g \<Rightarrow> map (sliceBox g) (slices g))
               (concat (labelLayers s)))"

definition computeBBox :: "(pieGlyph \<Rightarrow> pieSlice \<Rightarrow> elemBox) \<Rightarrow> svg \<Rightarrow> frame" where
  "computeBBox sliceBox s = frameOf (pathBoxes sliceBox s)"

section \<open>Callouts\<close>

text \<open>
  The callout options that enter the geometry and the text; colours, sizes and dash
  patterns are copied to attributes and are left out.
\<close>

record calloutOpts =
  padding :: jsval
  margin :: jsval
  textOffset :: jsval
  offsets :: "string \<rightharpoonup> jsnum \<times> jsnum"
  bypass :: "string \<rightharpoonup> jsnum \<times> jsnum"
  formatter :: "(string \<Rightarrow> jsval \<Rightarrow> string) option"

text \<open>
  The first lines of \<open>_buildCallouts\<close>: the viewBox is read or seeded, then widened by
  \<open>padding = pad + extra\<close> (here \<open>bothPads\<close>) on each side.
\<close>

definition expandViewBox :: "svg \<Rightarrow> frame \<Rightarrow> calloutOpts \<Rightarrow> svg" where
  "expandViewBox s bb co =
     (let (vx, vy, vw, vh) = (case viewBox s of
              Some vb \<Rightarrow> vb
            | None \<Rightarrow> (frameX bb, frameY bb, frameW bb, frameH bb));
          pad = orZero (padding co);
          extra = orZero (margin co);
          bothPads = js_add pad extra
      in s\<lparr>viewBox := Some (js_sub vx bothPads, vy, js_add vw (js_mul bothPads (Fin 2)), vh)\<rparr>)"

text \<open>\<open>count\<close> and the text of a callout's label.\<close>

definition countOf :: "datum option \<Rightarrow> jsval" where
  "countOf dv = (case dv of None \<Rightarrow> Undefined | Some DNull \<Rightarrow> Null | Some (DNum n) \<Rightarrow> Null
     | Some (DRec c r) \<Rightarrow> c)"

definition calloutText :: "(jsnum \<Rightarrow> string) \<Rightarrow> calloutOpts \<Rightarrow> dataMap \<Rightarrow> string \<Rightarrow> string" where
  "calloutText toLocaleString co dataMap name =
     (let dv = map_of dataMap name;
          count = countOf dv
      in case formatter co of
           Some f \<Rightarrow> f name count
         | None \<Rightarrow> name @ '' : '' @ fmtInt toLocaleString count)"

text \<open>The body of the region loop for a region whose element has the box \<open>b\<close>.\<close>

definition calloutOf :: "(jsnum \<Rightarrow> string) \<Rightarrow> calloutOpts \<Rightarrow> dataMap \<Rightarrow> frame \<Rightarrow> string \<Rightarrow> elemBox \<Rightarrow> callout" where
  "calloutOf toLocaleString co dataMap bb name b =
     (let pad = orZero (padding co);
          leftX = js_sub (frameX bb) pad;
          rightX = js_add (js_add (frameX bb) (frameW bb)) pad;
          off = offsetOf (offsets co) name;
          byp = bypass co name;
          cx = js_add (js_add (boxX b) (js_div (boxWidth b) (Fin 2))) (fst off);
          cy = js_add (js_add (boxY b) (js_div (boxHeight b) (Fin 2))) (snd off);
          leftSide = js_lt cx (frameCx bb);
          startX = cx;
          endX = (if leftSide then leftX else rightX);
          bend = (case byp of None \<Rightarrow> []
                  | Some p \<Rightarrow> [(js_add startX (fst p), js_add cy (snd p))]);
          textDx = js_mul (orZero (textOffset co)) (Fin (if leftSide then - 1 else 1));
          endY = js_add cy (case byp of None \<Rightarrow> Fin 0
                            | Some p \<Rightarrow> if truthy (snd p) then snd p else Fin 0)
      in \<lparr>linePoints = [(cx, cy), (startX, cy)] @ bend @ [(js_add endX textDx, endY)],
          pinX = cx, pinY = cy,
          textX = endX, textY = endY,
          textAnchor = (if leftSide then ''end'' else ''start''),
          textContent = calloutText toLocaleString co dataMap name\<rparr>)"

fun calloutLoop :: "(jsnum \<Rightarrow> string) \<Rightarrow> svg \<Rightarrow> codeMap \<Rightarrow> dataMap \<Rightarrow> frame \<Rightarrow> calloutOpts \<Rightarrow> callout list" where
  "calloutLoop toLocaleString s [] dataMap bb co = []"
| "calloutLoop toLocaleString s ((name, code) # rest) dataMap bb co =
     (case getElementById s code of
        None \<Rightarrow> calloutLoop toLocaleString s rest dataMap bb co
      | Some path \<Rightarrow> calloutOf toLocaleString co dataMap bb name (bbox path)
                     # calloutLoop toLocaleString s rest dataMap bb co)"

text \<open>\<open>_buildCallouts(svg, codeMap, dataMap, bbox, calloutOpts)\<close>\<close>

definition noCalloutOpts :: calloutOpts where
  "noCalloutOpts = \<lparr>padding = Undefined, margin = Undefined, textOffset = Undefined,
     offsets = Map.empty, bypass = Map.empty, formatter = None\<rparr>"

definition buildCallouts :: "(jsnum \<Rightarrow> string) \<Rightarrow> svg \<Rightarrow> codeMap \<Rightarrow> dataMap option \<Rightarrow> frame \<Rightarrow> calloutOpts option \<Rightarrow> svg" where
  "buildCallouts toLocaleString s codeMap dataMap bb calloutOpts =
     (let co = (case calloutOpts of None \<Rightarrow> noCalloutOpts | Some c \<Rightarrow> c);
          s1 = expandViewBox s bb co
      in s1\<lparr>calloutGroups := calloutGroups s1 @
              [calloutLoop toLocaleString s1 codeMap (orEmpty dataMap) bb co]\<rparr>)"

section \<open>Interaction controller\<close>

text \<open>
  A style object as the handlers enumerate it: keys in order, a value that is \<open>null\<close>
  or \<open>undefined\<close> is \<open>None\<close>, any other value is the string \<open>String(v)\<close>.
\<close>

type_synonym styleObj = "(string \<times> string option) list"

text \<open>
  \<open>opts.events\<close>. The three callbacks are the user's code; the model records whether each
  is given and logs its calls.
\<close>

record events =
  hoverStyle :: "styleObj option"
  regionHoverStyles :: "string \<rightharpoonup> styleObj"
  shadow :: bool
  onRegionEnter :: bool
  onRegionLeave :: bool
  onRegionClick :: bool

definition noEvents :: events where
  "noEvents = \<lparr>hoverStyle = None, regionHoverStyles = Map.empty, shadow = False,
     onRegionEnter = False, onRegionLeave = False, onRegionClick = False\<rparr>"

definition defaultHoverStyle :: styleObj where
  "defaultHoverStyle = [(''opacity'', Some ''0.8''), (''cursor'', Some ''pointer'')]"

text \<open>\<open>regionHoverStyles[name] || hoverStyle\<close>\<close>

definition styleToApply :: "events \<Rightarrow> string \<Rightarrow> styleObj" where
  "styleToApply ev name = (case regionHoverStyles ev name of
       Some st \<Rightarrow> st
     | None \<Rightarrow> (case hoverStyle ev of Some h \<Rightarrow> h | None \<Rightarrow> defaultHoverStyle))"

text \<open>\<open>k.replace(/[A-Z]/g, function (m) { return '-' + m.toLowerCase(); })\<close>\<close>

definition isUpper :: "char \<Rightarrow> bool" where
  "isUpper c = ((65::nat) \<le> of_char c \<and> of_char c \<le> (90::nat))"

definition toLowerCase :: "char \<Rightarrow> char" where
  "toLowerCase c = (if isUpper c then char_of (of_char c + (32::nat)) else c)"

fun kebab :: "string \<Rightarrow> string" where
  "kebab [] = []"
| "kebab (c # cs) = (if isUpper c then CHR ''-'' # toLowerCase c # kebab cs else c # kebab cs)"

text \<open>The closure \<open>apply(el, styleObj)\<close>, on the element's style.\<close>

fun applyStyle :: "styleObj \<Rightarrow> style \<Rightarrow> style" where
  "applyStyle [] st = st"
| "applyStyle ((k, v) # rest) st =
     applyStyle rest
       (case v of
          None \<Rightarrow> removeProperty k st
        | Some x \<Rightarrow>
            (let prop = kebab k
             in if prop = ''fill'' then setProperty prop x True st
                else setProperty prop x False st))"

text \<open>\<open>p._originalStyles\<close> as \<open>apply\<close> enumerates it.\<close>

definition originalStyleObj :: "originalStyle \<Rightarrow> styleObj" where
  "originalStyleObj orig =
     [(''stroke'', Some (origStroke orig)), (''strokeWidth'', Some (origStrokeWidth orig)),
      (''opacity'', Some (origOpacity orig)), (''cursor'', Some (origCursor orig)),
      (''filter'', Some (origFilter orig)), (''fill'', Some (origFill orig))]"

text \<open>
  The restore that \<open>deselectRegion\<close> and \<open>mouseleave\<close> both perform: apply the saved
  styles, set \<open>fill\<close> again as important, and reset \<open>filter\<close> when shadows are on.
\<close>

definition restoreOriginal :: "bool \<Rightarrow> originalStyle \<Rightarrow> style \<Rightarrow> style" where
  "restoreOriginal shadowOn orig st =
     (let st1 = applyStyle (originalStyleObj orig) st;
          st2 = setProperty ''fill'' (origFill orig) True st1
      in if shadowOn then setProperty ''filter'' (origFilter orig) False st2 else st2)"

text \<open>
  The state that the handlers share: the surface, the closure variables \<open>selectedPath\<close>
  (the selected element object) and \<open>shadowFilterId\<close>, and the log of callback calls
  (callback, region name, datum).
\<close>

record session =
  surface :: svg
  selectedPath :: "nat option"
  shadowFilterId :: "string option"
  calls :: "(string \<times> string \<times> datum option) list"

datatype error = MountNotFound | LoadFailed | ModeRequired | BarRequired | CalloutsRequired | TypeError

text \<open>A change of the inline style of the element object \<open>n\<close>.\<close>

definition updStyle :: "nat \<Rightarrow> (style \<Rightarrow> style) \<Rightarrow> svg \<Rightarrow> svg" where
  "updStyle n f s = s\<lparr>styles := (styles s)(n := f (styles s n))\<rparr>"

text \<open>\<open>el.parentNode.appendChild(el)\<close> for an element of the document.\<close>

definition raiseToTop :: "svgElem \<Rightarrow> svg \<Rightarrow> svg" where
  "raiseToTop e s = s\<lparr>elements := remove1 e (elements s) @ [e]\<rparr>"

text \<open>The same for the element object that \<open>selectedPath\<close> refers to.\<close>

definition raiseNode :: "nat \<Rightarrow> svg \<Rightarrow> svg" where
  "raiseNode n s = (case find (\<lambda>e. node e = n) (elements s) of
       None \<Rightarrow> s
     | Some e \<Rightarrow> raiseToTop e s)"

text \<open>The loop that keeps the \<open>innerCities\<close> on top.\<close>

fun raiseInnerCities :: "codeMap \<Rightarrow> string list \<Rightarrow> svg \<Rightarrow> svg" where
  "raiseInnerCities [] innerCities s = s"
| "raiseInnerCities ((innerName, innerCode) # rest) innerCities s =
     raiseInnerCities rest innerCities
       (if innerName \<in> set innerCities
        then (case getElementById s innerCode of None \<Rightarrow> s | Some innerPath \<Rightarrow> raiseToTop innerPath s)
        else s)"

text \<open>The shadow filter on an element, when there is one.\<close>

definition shadowOn :: "events \<Rightarrow> session \<Rightarrow> nat \<Rightarrow> svg \<Rightarrow> svg" where
  "shadowOn ev c n s = (case shadowFilterId c of
       Some fid \<Rightarrow> if shadow ev then updStyle n (setProperty ''filter'' (''url(#'' @ fid @ '')'') False) s else s
     | None \<Rightarrow> s)"

definition logCall :: "bool \<Rightarrow> string \<Rightarrow> string \<Rightarrow> dataMap option \<Rightarrow> session \<Rightarrow> session" where
  "logCall given callback name dataMap c =
     (if given then c\<lparr>calls := calls c @ [(callback, name, dataLookup dataMap name)]\<rparr> else c)"

text \<open>\<open>selectRegion(path, name)\<close> for an element \<open>path\<close>.\<close>

definition selectRegion :: "events \<Rightarrow> svgElem \<Rightarrow> string \<Rightarrow> session \<Rightarrow> session" where
  "selectRegion ev path name c =
     (let c1 = c\<lparr>selectedPath := Some (node path)\<rparr>;
          s1 = updStyle (node path) (applyStyle (styleToApply ev name)) (surface c1)
      in c1\<lparr>surface := shadowOn ev c1 (node path) s1\<rparr>)"

text \<open>
  \<open>deselectRegion\<close>. When the selected element has no \<open>_originalStyles\<close>,
  \<open>apply(selectedPath, undefined)\<close> enumerates nothing and reading
  \<open>selectedPath._originalStyles.fill\<close> throws a TypeError: nothing has changed by then,
  and \<open>selectedPath\<close> is not reset.
\<close>

definition deselectRegion :: "events \<Rightarrow> session \<Rightarrow> error + session" where
  "deselectRegion ev c = (case selectedPath c of
       None \<Rightarrow> Inr c
     | Some sp \<Rightarrow>
         (case originalStyles (surface c) sp of
            None \<Rightarrow> Inl TypeError
          | Some orig \<Rightarrow>
              Inr (c\<lparr>surface := updStyle sp (restoreOriginal (shadow ev) orig) (surface c),
                      selectedPath := None\<rparr>)))"

text \<open>
  The three handlers that \<open>createEventHandler(name, code)\<close> returns. Each looks the
  element up again by \<open>code\<close>. A handler that throws has changed nothing by then.
\<close>

definition mouseenter :: "codeMap \<Rightarrow> events \<Rightarrow> string list \<Rightarrow> dataMap option \<Rightarrow> string \<Rightarrow> string \<Rightarrow> session \<Rightarrow> error + session" where
  "mouseenter codeMap ev innerCities dataMap name code c =
     (case getElementById (surface c) code of
        None \<Rightarrow> Inr c
      | Some p \<Rightarrow>
          (let s0 = surface c;
               s1 = (if name \<notin> set innerCities
                     then raiseInnerCities codeMap innerCities
                            (case selectedPath c of
                               None \<Rightarrow> raiseToTop p s0
                             | Some sp \<Rightarrow> raiseNode sp (raiseToTop p s0))
                     else s0);
               s2 = updStyle (node p) (applyStyle (styleToApply ev name)) s1;
               s3 = shadowOn ev c (node p) s2
           in Inr (logCall (onRegionEnter ev) ''onRegionEnter'' name dataMap (c\<lparr>surface := s3\<rparr>))))"

definition mouseleave :: "events \<Rightarrow> dataMap option \<Rightarrow> string \<Rightarrow> string \<Rightarrow> session \<Rightarrow> error + session" where
  "mouseleave ev dataMap name code c =
     (case getElementById (surface c) code of
        None \<Rightarrow> Inr c
      | Some p \<Rightarrow>
          if Some (node p) = selectedPath c
          then Inr (logCall (onRegionLeave ev) ''onRegionLeave'' name dataMap c)
          else (case originalStyles (surface c) (node p) of
                  None \<Rightarrow> Inl TypeError
                | Some orig \<Rightarrow>
                    Inr (logCall (onRegionLeave ev) ''onRegionLeave'' name dataMap
                           (c\<lparr>surface := updStyle (node p) (restoreOriginal (shadow ev) orig) (surface c)\<rparr>))))"

definition click :: "codeMap \<Rightarrow> events \<Rightarrow> string list \<Rightarrow> dataMap option \<Rightarrow> string \<Rightarrow> string \<Rightarrow> session \<Rightarrow> error + session" where
  "click codeMap ev innerCities dataMap name code c =
     (case getElementById (surface c) code of
        None \<Rightarrow> Inr c
      | Some p \<Rightarrow>
          (case (if selectedPath c \<noteq> None \<and> selectedPath c \<noteq> Some (node p)
                 then deselectRegion ev c else Inr c) of
             Inl e \<Rightarrow> Inl e
           | Inr c1 \<Rightarrow>
               (let c2 = (if selectedPath c1 \<noteq> Some (node p)
                          then (let c' = selectRegion ev p name c1
                                in c'\<lparr>surface := raiseInnerCities codeMap innerCities
                                                    (raiseToTop p (surface c'))\<rparr>)
                          else c1)
                in Inr (logCall (onRegionClick ev) ''onRegionClick'' name dataMap c2))))"

text \<open>
  The events that reach the controller: an event on the element that a region's
  handlers are attached to, named by the region, or a click that reaches the window's
  listener, with whether its target is the root surface. A click on a region reaches
  the window with the region as target.
\<close>

datatype event = MouseEnter string | MouseLeave string | Click string | WindowClick bool

definition windowClick :: "events \<Rightarrow> bool \<Rightarrow> session \<Rightarrow> error + session" where
  "windowClick ev targetIsSvg c = (if targetIsSvg then deselectRegion ev c else Inr c)"

text \<open>The \<open>code\<close> of the handlers registered under a region name, if there are any.\<close>

definition listenerCode :: "svg \<Rightarrow> string \<Rightarrow> string option" where
  "listenerCode s name = map_option fst (map_of (listeners s) name)"

text \<open>One event: the handler registered for the region runs, if there is one.\<close>

fun dispatch :: "codeMap \<Rightarrow> events \<Rightarrow> string list \<Rightarrow> dataMap option \<Rightarrow> session \<Rightarrow> event \<Rightarrow> error + session" where
  "dispatch codeMap ev innerCities dataMap c (MouseEnter name) =
     (case listenerCode (surface c) name of
        None \<Rightarrow> Inr c
      | Some code \<Rightarrow> mouseenter codeMap ev innerCities dataMap name code c)"
| "dispatch codeMap ev innerCities dataMap c (MouseLeave name) =
     (case listenerCode (surface c) name of
        None \<Rightarrow> Inr c
      | Some code \<Rightarrow> mouseleave ev dataMap name code c)"
| "dispatch codeMap ev innerCities dataMap c (Click name) =
     (case listenerCode (surface c) name of
        None \<Rightarrow> Inr c
      | Some code \<Rightarrow>
          (case click codeMap ev innerCities dataMap name code c of
             Inl e \<Rightarrow> Inl e
           | Inr c1 \<Rightarrow> windowClick ev False c1))"
| "dispatch codeMap ev innerCities dataMap c (WindowClick targetIsSvg) = windowClick ev targetIsSvg c"

text \<open>
  A sequence of events. An exception in a handler is reported by the host and ends
  that handler only: the later events are dispatched on the state the handler left,
  which is the state before it. The result is the list of exceptions thrown and the
  final state.
\<close>

fun dispatchAll :: "codeMap \<Rightarrow> events \<Rightarrow> string list \<Rightarrow> dataMap option \<Rightarrow> session \<Rightarrow> event list \<Rightarrow> error list \<times> session" where
  "dispatchAll codeMap ev innerCities dataMap c [] = ([], c)"
| "dispatchAll codeMap ev innerCities dataMap c (e # es) =
     (case dispatch codeMap ev innerCities dataMap c e of
        Inl err \<Rightarrow> (case dispatchAll codeMap ev innerCities dataMap c es of
                      (errs, c') \<Rightarrow> (err # errs, c'))
      | Inr c1 \<Rightarrow> dispatchAll codeMap ev innerCities dataMap c1 es)"

text \<open>
  The binding loop of \<open>_bindRegionEvents\<close>: the saved styles are set on the element
  that \<open>getElementById\<close> returns at that moment, and the handlers are attached to it.
\<close>

fun bindLoop :: "codeMap \<Rightarrow> svg \<Rightarrow> svg" where
  "bindLoop [] s = s"
| "bindLoop ((name, code) # rest) s =
     (case getElementById s code of
        None \<Rightarrow> bindLoop rest s
      | Some p \<Rightarrow>
          (let st = styles s (node p);
               orig = \<lparr>origStroke = getProperty st ''stroke'',
                       origStrokeWidth = getProperty st ''stroke-width'',
                       origOpacity = getProperty st ''opacity'',
                       origCursor = getProperty st ''cursor'',
                       origFilter = getProperty st ''filter'',
                       origFill = getProperty st ''fill''\<rparr>;
               s1 = s\<lparr>originalStyles := (originalStyles s)(node p \<mapsto> orig)\<rparr>;
               s2 = updStyle (node p) (setProperty ''pointer-events'' ''auto'' False) s1
           in bindLoop rest (s2\<lparr>listeners := listeners s2 @ [(name, code, node p)]\<rparr>)))"

text \<open>
  \<open>_bindRegionEvents\<close>: the shadow filter is created when \<open>events.shadow\<close> is set (its
  id ends in a random suffix, a parameter here), the regions are bound, and the session
  starts with nothing selected.
\<close>

definition bindRegionEvents :: "string \<Rightarrow> svg \<Rightarrow> codeMap \<Rightarrow> events \<Rightarrow> session" where
  "bindRegionEvents randomSuffix s codeMap ev =
     (let fid = (if shadow ev then Some (''drop-shadow-'' @ randomSuffix) else None);
          s1 = (case fid of None \<Rightarrow> s | Some f \<Rightarrow> s\<lparr>filters := filters s @ [f]\<rparr>)
      in \<lparr>surface = bindLoop codeMap s1, selectedPath = None, shadowFilterId = fid, calls = []\<rparr>)"

text \<open>A region element is selected when the controller's reference points to it.\<close>

definition isSelected :: "session \<Rightarrow> nat \<Rightarrow> bool" where
  "isSelected c n = (selectedPath c = Some n)"

section \<open>Render\<close>

text \<open>\<open>opts.bar\<close>: of its fields only \<open>width\<close> enters a computed value.\<close>

record barOpts =
  barOptWidth :: jsval

text \<open>
  The options of \<open>render\<close>; \<open>mapWidth\<close> and \<open>mapHeight\<close> are \<open>opts.map.width\<close> and
  \<open>opts.map.height\<close>. An option that is absent is \<open>None\<close> (or \<open>Undefined\<close>).
\<close>

record options =
  mode :: "string option"
  svgUrl :: "string option"
  data :: "dataMap option"
  rates :: "jsnum list option"
  colors :: "string option list option"
  gap :: jsval
  mapWidth :: jsval
  mapHeight :: jsval
  labels :: "labelOpts option"
  pieChartData :: "(string \<rightharpoonup> pieItem list) option"
  bar :: "barOpts option"
  callouts :: "calloutOpts option"
  events :: "events option"
  innerCities :: "string list option"

definition noOptions :: options where
  "noOptions = \<lparr>mode = None, svgUrl = None, data = None, rates = None, colors = None,
     gap = Undefined, mapWidth = Undefined, mapHeight = Undefined, labels = None,
     pieChartData = None, bar = None, callouts = None, events = None, innerCities = None\<rparr>"

text \<open>
  What the host provides: the document that \<open>_loadSVG(url)\<close> resolves to (\<open>None\<close> when
  the fetch fails), the locale formatting of a number, the boxes of generated slice
  paths, the random suffix of a filter id, and the rounding of a real to a double.
\<close>

record host =
  loadSVG :: "string option \<Rightarrow> svg option"
  toLocaleString :: "jsnum \<Rightarrow> string"
  sliceBox :: "pieGlyph \<Rightarrow> pieSlice \<Rightarrow> elemBox"
  randomSuffix :: string
  toDouble :: "real \<Rightarrow> jsnum"

text \<open>The mount element: its children and its inline style.\<close>

datatype mountChild = PriorContent string | SvgRoot | BarList "barRow list"

record mountEl =
  children :: "mountChild list"
  mountStyle :: "string \<rightharpoonup> cssValue"

text \<open>
  The outcome of \<open>render\<close>: it throws before returning a promise, or the promise rejects
  (with the mount and the loaded surface as they are then), or it resolves.
\<close>

datatype renderResult =
    Threw error
  | Rejected error mountEl "svg option"
  | Resolved mountEl session

text \<open>\<open>(v != null) ? v + 'px' : null\<close>\<close>

fun pxOrNull :: "jsval \<Rightarrow> cssValue option" where
  "pxOrNull (Num n) = Some (Px n)"
| "pxOrNull _ = None"

text \<open>The closure \<open>getRate\<close> of \<open>render\<close>.\<close>

definition getRate :: "dataMap option \<Rightarrow> string \<Rightarrow> jsval" where
  "getRate dataMap name = (case dataLookup dataMap name of
       None \<Rightarrow> Null
     | Some DNull \<Rightarrow> Null
     | Some (DNum n) \<Rightarrow> Num n
     | Some (DRec c r) \<Rightarrow> r)"

text \<open>\<open>!opts.mode\<close>: the mode is absent or the empty string.\<close>

definition modeMissing :: "options \<Rightarrow> bool" where
  "modeMissing opts = (case mode opts of None \<Rightarrow> True | Some m \<Rightarrow> m = [])"

text \<open>
  \<open>KorMapChartES5.render(codeMap, mount, opts)\<close>; \<open>mount\<close> is what \<open>_ensureMount\<close>
  resolves the argument to, \<open>None\<close> when there is no such element.
\<close>

definition render :: "host \<Rightarrow> codeMap \<Rightarrow> mountEl option \<Rightarrow> options option \<Rightarrow> renderResult" where
  "render h codeMap mount optsArg =
     (let opts = (case optsArg of None \<Rightarrow> noOptions | Some opt \<Rightarrow> opt)
      in case mount of
           None \<Rightarrow> Threw MountNotFound
         | Some el \<Rightarrow>
             (let centred = (if mode opts = Some ''count+callouts'' then Some (Keyword ''center'') else None);
                  css1 = setCss (mountStyle el) ''position'' (Some (Keyword ''relative''));
                  css2 = setCss css1 ''display'' (Some (Keyword ''flex''));
                  css3 = setCss css2 ''align-items'' centred;
                  css4 = setCss css3 ''justify-content'' centred;
                  css5 = setCss css4 ''flex-shrink'' (Some (Keyword ''0''));
                  css6 = setCss css5 ''gap'' (pxOrNull (gap opts));
                  el1 = \<lparr>children = [], mountStyle = css6\<rparr>
              in case loadSVG h (svgUrl opts) of
                   None \<Rightarrow> Rejected LoadFailed el1 None
                 | Some loaded \<Rightarrow>
                     (let svg1 = loaded\<lparr>rootStyle :=
                                   setCss (setCss (rootStyle loaded) ''width'' (pxOrNull (mapWidth opts)))
                                     ''height'' (pxOrNull (mapHeight opts))\<rparr>;
                          el2 = el1\<lparr>children := children el1 @ [SvgRoot]\<rparr>;
                          svg2 = clearSvgFillStyles svg1;
                          colorForRate = makeColorForRate (rates opts) (colors opts)
                      in if modeMissing opts then Rejected ModeRequired el2 (Some svg2)
                         else if mode opts = Some ''rate+bars'' \<and> bar opts = None
                           then Rejected BarRequired el2 (Some svg2)
                         else if mode opts = Some ''count+callouts'' \<and> callouts opts = None
                           then Rejected CalloutsRequired el2 (Some svg2)
                         else
                           (let svg3 = paintRegions svg2 codeMap (getRate (data opts)) colorForRate;
                                svg4 = placeRegionLabels (toDouble h) svg3 codeMap (labels opts) (pieChartData opts);
                                c = bindRegionEvents (randomSuffix h) svg4 codeMap
                                      (case events opts of None \<Rightarrow> noEvents | Some e \<Rightarrow> e)
                            in if mode opts = Some ''rate+bars''
                               then Resolved
                                      (el2\<lparr>children := children el2 @
                                             [BarList (buildBars (data opts) colorForRate
                                                (case bar opts of None \<Rightarrow> Undefined | Some b \<Rightarrow> barOptWidth b))]\<rparr>)
                                      c
                               else if mode opts = Some ''count+callouts''
                               then Resolved el2
                                      (c\<lparr>surface := buildCallouts (toLocaleString h) (surface c) codeMap
                                                       (data opts) (computeBBox (sliceBox h) (surface c))
                                                       (callouts opts)\<rparr>)
                               else Resolved el2 c))))"

text \<open>
  The handlers of a rendered chart close over the options of the render:
  an event sequence on a session, with the arguments that \<open>render\<close> passed on.
\<close>

definition handle :: "codeMap \<Rightarrow> options \<Rightarrow> session \<Rightarrow> event list \<Rightarrow> error list \<times> session" where
  "handle codeMap opts c evs =
     dispatchAll codeMap (case events opts of None \<Rightarrow> noEvents | Some e \<Rightarrow> e)
       (case innerCities opts of None \<Rightarrow> [] | Some ics \<Rightarrow> ics) (data opts) c evs"

section \<open>Notions used in the statements\<close>

text \<open>
  Descending order of the sorted entries: each entry's rate is \<open>>=\<close> the rate of every
  later entry.
\<close>

definition descByRate :: "string \<times> jsnum \<Rightarrow> string \<times> jsnum \<Rightarrow> bool" where
  "descByRate a b = js_ge (snd a) (snd b)"

text \<open>
  The width in the surface's viewBox, if it has one.
\<close>

definition viewBoxWidth :: "svg \<Rightarrow> jsnum option" where
  "viewBoxWidth s = map_option (\<lambda>(vx, vy, vw, vh). vw) (viewBox s)"

text \<open>
  The regions of the code map whose element is in the document, in the order of the
  map, and the anchor of a region: the centre of its box plus its offset.
\<close>

definition foundRegions :: "svg \<Rightarrow> codeMap \<Rightarrow> (string \<times> string) list" where
  "foundRegions s cm = filter (\<lambda>(name, code). getElementById s code \<noteq> None) cm"

definition regionAnchorX :: "calloutOpts \<Rightarrow> string \<Rightarrow> svgElem \<Rightarrow> jsnum" where
  "regionAnchorX co name el =
     js_add (js_add (boxX (bbox el)) (js_div (boxWidth (bbox el)) (Fin 2))) (fst (offsetOf (offsets co) name))"

text \<open>
  No two elements of the document carry the same \<open>id\<close>.
\<close>

definition distinctIds :: "svg \<Rightarrow> bool" where
  "distinctIds s = distinct (map elemId (filter (\<lambda>e. elemId e \<noteq> None) (elements s)))"

text \<open>
  Every element that carries the id of a registered listener, and the selected element
  if there is one, has its saved styles.
\<close>

definition handlersBound :: "session \<Rightarrow> bool" where
  "handlersBound c =
     ((\<forall>l \<in> set (listeners (surface c)). \<forall>e \<in> set (elements (surface c)).
          elemId e = Some (fst (snd l)) \<longrightarrow> originalStyles (surface c) (node e) \<noteq> None)
      \<and> (case selectedPath c of None \<Rightarrow> True | Some sp \<Rightarrow> originalStyles (surface c) sp \<noteq> None))"

text \<open>
  The parts of a render's outcome.
\<close>

fun rejectedWith :: "renderResult \<Rightarrow> error option" where
  "rejectedWith (Rejected err el sv) = Some err"
| "rejectedWith _ = None"

fun mountAfter :: "renderResult \<Rightarrow> mountEl option" where
  "mountAfter (Threw err) = None"
| "mountAfter (Rejected err el sv) = Some el"
| "mountAfter (Resolved el c) = Some el"

fun surfaceAfter :: "renderResult \<Rightarrow> svg option" where
  "surfaceAfter (Threw err) = None"
| "surfaceAfter (Rejected err el sv) = sv"
| "surfaceAfter (Resolved el c) = Some (surface c)"

text \<open>
  \<open>opts = opts || {}\<close>
\<close>

definition optionsOf :: "options option \<Rightarrow> options" where
  "optionsOf optsArg = (case optsArg of None \<Rightarrow> noOptions | Some opt \<Rightarrow> opt)"

text \<open>
  Nothing has been painted, labelled, bound or routed on the surface \<open>sv\<close> since it
  was loaded.
\<close>

definition untouched :: "svg \<Rightarrow> svg \<Rightarrow> bool" where
  "untouched loaded sv =
     (elements sv = elements loaded \<and> viewBox sv = viewBox loaded \<and> styles sv = styles loaded
      \<and> labelLayers sv = labelLayers loaded \<and> calloutGroups sv = calloutGroups loaded
      \<and> originalStyles sv = originalStyles loaded \<and> listeners sv = listeners loaded
      \<and> filters sv = filters loaded)"

section \<open>Example inputs\<close>

text \<open>
  A colour scale whose last threshold is 0, with three colours.
\<close>

definition exThresholds :: "jsnum list" where
  "exThresholds = [Fin 0.5, Fin 0]"

definition exColors :: "string option list" where
  "exColors = [Some ''a'', Some ''b'', Some ''c'']"

text \<open>
  The data \<open>{A: 0.5, B: null, C: 0.9}\<close>.
\<close>

definition exData :: dataMap where
  "exData = [(''A'', DNum (Fin 0.5)), (''B'', DNull), (''C'', DNum (Fin 0.9))]"

text \<open>
  Data in which one rate is NaN.
\<close>

definition exNaNData :: dataMap where
  "exNaNData = [(''A'', DNum (Fin 0.9)), (''B'', DNum (Fin 0.5)), (''C'', DNum NaN), (''D'', DNum (Fin 0.7))]"

text \<open>
  A pie item with the given value and neither label nor colour, and pie options left to
  their defaults.
\<close>

definition pieOf :: "jsval \<Rightarrow> pieItem" where
  "pieOf v = \<lparr>itemLabel = None, itemData = v, itemColor = None\<rparr>"

definition exPieOpts :: pieOpts where
  "exPieOpts = \<lparr>optRadius = Undefined, optInnerRadius = Undefined, optStrokeWidth = Undefined,
     optStrokeColor = None\<rparr>"

text \<open>
  A surface with two region paths: \<open>L\<close> with the box \<open>(0, 0, 100, 50)\<close> and \<open>R\<close> with the
  box \<open>(200, 0, 100, 50)\<close>, no viewBox, nothing added yet; its code map, and its frame
  \<open>{x: 0, y: 0, w: 300, h: 50, cx: 150}\<close>.
\<close>

definition exSurface :: svg where
  "exSurface = \<lparr>elements =
       [\<lparr>node = 0, elemId = Some ''L'', isPath = True,
          bbox = \<lparr>boxX = Fin 0, boxY = Fin 0, boxWidth = Fin 100, boxHeight = Fin 50\<rparr>\<rparr>,
        \<lparr>node = 1, elemId = Some ''R'', isPath = True,
          bbox = \<lparr>boxX = Fin 200, boxY = Fin 0, boxWidth = Fin 100, boxHeight = Fin 50\<rparr>\<rparr>],
     viewBox = None, rootStyle = Map.empty, authorFills = True, styles = (\<lambda>n. Map.empty),
     labelLayers = [], calloutGroups = [], originalStyles = Map.empty, listeners = [],
     filters = []\<rparr>"

definition exCodeMap :: codeMap where
  "exCodeMap = [(''West'', ''L''), (''East'', ''R'')]"

text \<open>
  A document in which two elements carry the id \<open>L\<close>, and a code map with one region
  of that id.
\<close>

definition exTwinSurface :: svg where
  "exTwinSurface = \<lparr>elements =
       [\<lparr>node = 0, elemId = Some ''L'', isPath = True,
          bbox = \<lparr>boxX = Fin 0, boxY = Fin 0, boxWidth = Fin 100, boxHeight = Fin 50\<rparr>\<rparr>,
        \<lparr>node = 1, elemId = Some ''L'', isPath = True,
          bbox = \<lparr>boxX = Fin 200, boxY = Fin 0, boxWidth = Fin 100, boxHeight = Fin 50\<rparr>\<rparr>],
     viewBox = None, rootStyle = Map.empty, authorFills = True, styles = (\<lambda>n. Map.empty),
     labelLayers = [], calloutGroups = [], originalStyles = Map.empty, listeners = [],
     filters = []\<rparr>"

definition exTwinCodeMap :: codeMap where
  "exTwinCodeMap = [(''West'', ''L'')]"

text \<open>
  A run of events on the two regions of the example surface.
\<close>

definition exEvents :: "event list" where
  "exEvents = [MouseEnter ''West'', Click ''West'', MouseLeave ''West'', MouseEnter ''East'', Click ''East'']"

definition exFrame :: frame where
  "exFrame = \<lparr>frameX = Fin 0, frameY = Fin 0, frameW = Fin 300, frameH = Fin 50, frameCx = Fin 150\<rparr>"

text \<open>
  Callout options with the given \<open>padding\<close> and \<open>margin\<close> and nothing else.
\<close>

definition exCalloutOpts :: "real \<Rightarrow> real \<Rightarrow> calloutOpts" where
  "exCalloutOpts p m = \<lparr>padding = Num (Fin p), margin = Num (Fin m), textOffset = Undefined,
     offsets = Map.empty, bypass = Map.empty, formatter = None\<rparr>"

text \<open>
  A stand-in for the locale formatting: the digits of the number.
\<close>

definition exLocale :: "jsnum \<Rightarrow> string" where
  "exLocale n = show_rounded n"

text \<open>
  Data with a bare rate for one region and a record for the other.
\<close>

definition exCountData :: dataMap where
  "exCountData = [(''West'', DNum (Fin 0.87)), (''East'', DRec (Num (Fin 4339)) (Num (Fin 0.93)))]"

text \<open>
  A host that loads the example surface and whose sums need no rounding, and a mount
  that holds an earlier chart.
\<close>

definition exHost :: host where
  "exHost = \<lparr>loadSVG = (\<lambda>url. Some exSurface), toLocaleString = exLocale,
     sliceBox = (\<lambda>g sl. \<lparr>boxX = centerX g, boxY = centerY g, boxWidth = Fin 0, boxHeight = Fin 0\<rparr>),
     randomSuffix = ''k3x9'', toDouble = Fin\<rparr>"

definition exMount :: mountEl where
  "exMount = \<lparr>children = [PriorContent ''previous chart''], mountStyle = Map.empty\<rparr>"

section \<open>Colour scale: properties\<close>

lemma clamp01_Fin: "clamp01 (Num (Fin r)) = Some (Fin (min 1 (max 0 r)))"
  by (auto simp add: clamp01_def js_min_def js_max_def Let_def)

lemma clamp01_unknown: "clamp01 (Num NaN) = None" "clamp01 Undefined = None"
    "clamp01 (Num PInf) = None" "clamp01 (Num NInf) = None"
  by (simp_all add: clamp01_def)

text \<open>\<open>null\<close> is not among the unknown inputs: \<open>Number(null)\<close> is 0.\<close>

lemma clamp01_Null: "clamp01 Null = Some (Fin 0)"
  by (simp add: clamp01_def js_min_def js_max_def)

lemma colorFor_NaN:
  "makeColorForRate th cs (Num NaN) = fallbackOf (orDefaultArray cs defaultColors)"
  "makeColorForRate th cs Undefined = fallbackOf (orDefaultArray cs defaultColors)"
  by (simp_all add: makeColorForRate_def clamp01_unknown)

text \<open>
  C5. The specification has \<open>colorFor(null)\<close> and \<open>colorFor(NaN)\<close> both return the fallback
  colour for every configuration. With the thresholds \<open>[0.5, 0]\<close> and the colours
  \<open>[a, b, c]\<close> the fallback is \<open>c\<close> and \<open>colorFor(NaN)\<close> is \<open>c\<close>, but \<open>colorFor(null)\<close> is
  \<open>b\<close>: \<open>_clamp01\<close> turns \<open>null\<close> into the rate 0, which meets the threshold 0.
\<close>

theorem colorFor_null_is_rate_zero:
  "makeColorForRate (Some exThresholds) (Some exColors) Null = ''b''
   \<and> makeColorForRate (Some exThresholds) (Some exColors) (Num NaN) = ''c''
   \<and> fallbackOf exColors = ''c''
   \<and> makeColorForRate (Some exThresholds) (Some exColors) Null
       = makeColorForRate (Some exThresholds) (Some exColors) (Num (Fin 0))"
  by (simp add: makeColorForRate_def orDefaultArray_def fallbackOf_def at_index_def
      clamp01_def js_min_def js_max_def exThresholds_def exColors_def)

lemma js_ge_trans: "js_ge a b \<Longrightarrow> js_ge b c \<Longrightarrow> js_ge a c"
  by (cases a; cases b; cases c) auto

lemma thresholdScan_bounds:
  "thresholdScan r th i = Some j \<Longrightarrow> i \<le> j \<and> j < i + length th \<and> js_ge r (th ! (j - i))"
proof (induction th arbitrary: i)
  case Nil
  then show ?case by simp
next
  case (Cons t ts)
  show ?case
  proof (cases "js_ge r t")
    case True
    with Cons.prems show ?thesis by simp
  next
    case False
    with Cons.prems have "thresholdScan r ts (Suc i) = Some j" by simp
    from Cons.IH [OF this] show ?thesis by (auto simp: nth_Cons')
  qed
qed

lemma thresholdScan_mono:
  "js_ge r1 r2 \<Longrightarrow> thresholdScan r2 th i = Some j \<Longrightarrow> \<exists>k. thresholdScan r1 th i = Some k \<and> k \<le> j"
proof (induction th arbitrary: i)
  case Nil
  then show ?case by simp
next
  case (Cons t ts)
  show ?case
  proof (cases "js_ge r1 t")
    case True
    with Cons.prems show ?thesis by (auto split: if_splits dest: thresholdScan_bounds)
  next
    case False
    with Cons.prems have "\<not> js_ge r2 t" using js_ge_trans by blast
    with Cons False show ?thesis by simp
  qed
qed

lemma thresholdScan_hit:
  "k < length th \<Longrightarrow> js_ge r (th ! k) \<Longrightarrow> \<exists>j. thresholdScan r th i = Some j \<and> j \<le> i + k"
proof (induction th arbitrary: i k)
  case Nil
  then show ?case by simp
next
  case (Cons t ts)
  show ?case
  proof (cases "js_ge r t")
    case True
    then show ?thesis by simp
  next
    case False
    with Cons.prems obtain k' where k': "k = Suc k'" by (cases k) auto
    with Cons.prems have "k' < length ts" "js_ge r (ts ! k')" by auto
    from Cons.IH [OF this, of "Suc i"] False k' show ?thesis by auto
  qed
qed

lemma selectedIndex_le: "selectedIndex th v \<le> length th"
  by (auto simp: selectedIndex_def split: option.splits dest: thresholdScan_bounds)

lemma selectedIndex_mono:
  assumes "r2 \<le> r1"
  shows "selectedIndex th (Num (Fin r1)) \<le> selectedIndex th (Num (Fin r2))"
proof (cases "thresholdScan (Fin (min 1 (max 0 r2))) th 0")
  case None
  then show ?thesis
    using selectedIndex_le [of th "Num (Fin r1)"] by (simp add: selectedIndex_def clamp01_Fin)
next
  case (Some j)
  from assms have "js_ge (Fin (min 1 (max 0 r1))) (Fin (min 1 (max 0 r2)))" by auto
  from thresholdScan_mono [OF this Some] Some show ?thesis
    by (auto simp add: selectedIndex_def clamp01_Fin)
qed

text \<open>With one colour per slot, a lookup returns the colour at the selected index.\<close>

lemma colorFor_at_selectedIndex:
  assumes "th \<noteq> []" and "length cs = Suc (length th)"
  shows "makeColorForRate (Some th) (Some (map Some cs)) v = cs ! selectedIndex th v"
proof -
  have cs: "map Some cs \<noteq> []" using assms by auto
  have fb: "fallbackOf (map Some cs) = cs ! length th"
    using assms by (simp add: fallbackOf_def at_index_def Let_def)
  show ?thesis
  proof (cases "clamp01 v")
    case None
    then show ?thesis using assms cs fb
      by (simp add: makeColorForRate_def selectedIndex_def orDefaultArray_def)
  next
    case (Some r)
    show ?thesis
    proof (cases "thresholdScan r th 0")
      case None
      with Some show ?thesis using assms cs fb
        by (simp add: makeColorForRate_def selectedIndex_def orDefaultArray_def)
    next
      case (Some j)
      from thresholdScan_bounds [OF Some] have "j < length th" by simp
      with Some \<open>clamp01 v = Some r\<close> show ?thesis using assms cs
        by (simp add: makeColorForRate_def selectedIndex_def orDefaultArray_def at_index_def)
    qed
  qed
qed

lemma selectedIndex_tie:
  fixes th :: "real list"
  assumes desc: "sorted_wrt (\<ge>) th" and i: "i < length th" and rng: "0 \<le> th ! i" "th ! i \<le> 1"
  shows "selectedIndex (map Fin th) (Num (Fin (th ! i))) \<le> i
       \<and> th ! selectedIndex (map Fin th) (Num (Fin (th ! i))) = th ! i"
proof -
  have cl: "clamp01 (Num (Fin (th ! i))) = Some (Fin (th ! i))"
    using rng by (simp add: clamp01_Fin)
  have "js_ge (Fin (th ! i)) (map Fin th ! i)" using i by simp
  from thresholdScan_hit [OF _ this, of 0] i
  obtain j where j: "thresholdScan (Fin (th ! i)) (map Fin th) 0 = Some j" "j \<le> i" by auto
  from thresholdScan_bounds [OF j(1)] i j(2) have "th ! i \<ge> th ! j" by simp
  moreover have "th ! j \<ge> th ! i"
  proof (cases "j = i")
    case True then show ?thesis by simp
  next
    case False
    with j(2) have "j < i" by simp
    from sorted_wrt_nth_less [OF desc this i] show ?thesis .
  qed
  ultimately show ?thesis using j cl by (simp add: selectedIndex_def)
qed

text \<open>
  C6. For a descending threshold list \<open>th\<close> with one colour per slot (\<open>length th + 1\<close>
  colours) and rates \<open>r1 \<ge> r2\<close>, each lookup returns the colour at its selected index,
  and the index selected for \<open>r1\<close> is at most the index selected for \<open>r2\<close>. A rate in
  \<open>[0, 1]\<close> that equals the threshold at index \<open>i\<close> selects an index that is not lower in
  the scale than \<open>i\<close> and whose threshold is that value: index \<open>i\<close> itself when the
  thresholds are distinct.
\<close>

theorem threshold_monotonicity:
  fixes th :: "real list" and cs :: "string list"
  assumes "th \<noteq> []" and "length cs = Suc (length th)" and "sorted_wrt (\<ge>) th" and "r2 \<le> r1"
  shows "makeColorForRate (Some (map Fin th)) (Some (map Some cs)) (Num (Fin r1))
           = cs ! selectedIndex (map Fin th) (Num (Fin r1))
       \<and> makeColorForRate (Some (map Fin th)) (Some (map Some cs)) (Num (Fin r2))
           = cs ! selectedIndex (map Fin th) (Num (Fin r2))
       \<and> selectedIndex (map Fin th) (Num (Fin r1)) \<le> selectedIndex (map Fin th) (Num (Fin r2))
       \<and> (\<forall>i < length th. 0 \<le> th ! i \<and> th ! i \<le> 1 \<longrightarrow>
            selectedIndex (map Fin th) (Num (Fin (th ! i))) \<le> i
          \<and> th ! selectedIndex (map Fin th) (Num (Fin (th ! i))) = th ! i
          \<and> (distinct th \<longrightarrow> selectedIndex (map Fin th) (Num (Fin (th ! i))) = i))"
proof -
  have a: "map Fin th \<noteq> []" "length cs = Suc (length (map Fin th))" using assms by auto
  have tie: "\<forall>i < length th. 0 \<le> th ! i \<and> th ! i \<le> 1 \<longrightarrow>
            selectedIndex (map Fin th) (Num (Fin (th ! i))) \<le> i
          \<and> th ! selectedIndex (map Fin th) (Num (Fin (th ! i))) = th ! i
          \<and> (distinct th \<longrightarrow> selectedIndex (map Fin th) (Num (Fin (th ! i))) = i)"
  proof (intro allI impI)
    fix i assume i: "i < length th" and rng: "0 \<le> th ! i \<and> th ! i \<le> 1"
    from selectedIndex_tie [OF assms(3) i] rng
    have t: "selectedIndex (map Fin th) (Num (Fin (th ! i))) \<le> i"
        "th ! selectedIndex (map Fin th) (Num (Fin (th ! i))) = th ! i" by auto
    from t i have "distinct th \<longrightarrow> selectedIndex (map Fin th) (Num (Fin (th ! i))) = i"
      by (auto simp: nth_eq_iff_index_eq)
    with t show "selectedIndex (map Fin th) (Num (Fin (th ! i))) \<le> i
          \<and> th ! selectedIndex (map Fin th) (Num (Fin (th ! i))) = th ! i
          \<and> (distinct th \<longrightarrow> selectedIndex (map Fin th) (Num (Fin (th ! i))) = i)" by simp
  qed
  show ?thesis
    using colorFor_at_selectedIndex [OF a] selectedIndex_mono [OF assms(4)] tie by simp
qed

theorem threshold_monotonicity_witness:
  "[0.8, 0.6, 0.4, 0.2 :: real] \<noteq> []
   \<and> length [''c0'', ''c1'', ''c2'', ''c3'', ''c4''] = Suc (length [0.8, 0.6, 0.4, 0.2 :: real])
   \<and> sorted_wrt (\<ge>) [0.8, 0.6, 0.4, 0.2 :: real] \<and> (0.3 :: real) \<le> 0.9
   \<and> makeColorForRate (Some (map Fin [0.8, 0.6, 0.4, 0.2]))
        (Some (map Some [''c0'', ''c1'', ''c2'', ''c3'', ''c4''])) (Num (Fin 0.9)) = ''c0''
   \<and> makeColorForRate (Some (map Fin [0.8, 0.6, 0.4, 0.2]))
        (Some (map Some [''c0'', ''c1'', ''c2'', ''c3'', ''c4''])) (Num (Fin 0.3)) = ''c3''
   \<and> selectedIndex (map Fin [0.8, 0.6, 0.4, 0.2]) (Num (Fin 0.9))
        \<le> selectedIndex (map Fin [0.8, 0.6, 0.4, 0.2]) (Num (Fin 0.3))
   \<and> selectedIndex (map Fin [0.8, 0.6, 0.4, 0.2]) (Num (Fin 0.6)) = 1"
proof -
  have h: "[0.8, 0.6, 0.4, 0.2 :: real] \<noteq> []"
      "length [''c0'', ''c1'', ''c2'', ''c3'', ''c4''] = Suc (length [0.8, 0.6, 0.4, 0.2 :: real])"
      "sorted_wrt (\<ge>) [0.8, 0.6, 0.4, 0.2 :: real]" "(0.3 :: real) \<le> 0.9" by simp_all
  have ix: "selectedIndex (map Fin [0.8, 0.6, 0.4, 0.2]) (Num (Fin 0.9)) = 0"
      "selectedIndex (map Fin [0.8, 0.6, 0.4, 0.2]) (Num (Fin 0.3)) = 3"
      "selectedIndex (map Fin [0.8, 0.6, 0.4, 0.2]) (Num (Fin 0.6)) = 1"
    by (simp_all add: selectedIndex_def clamp01_Fin)
  from threshold_monotonicity [OF h] ix h show ?thesis by simp
qed

section \<open>Bar list: properties\<close>

lemma mset_insertBy: "mset (insertBy cmp x ys) = add_mset x (mset ys)"
  by (induction ys) auto

lemma mset_arraySort: "mset (arraySort cmp xs) = mset xs"
  by (induction xs) (auto simp: arraySort_def mset_insertBy)

lemma set_insertBy: "set (insertBy cmp x ys) = insert x (set ys)"
  by (induction ys) auto

lemma byRateDesc_gt:
  "snd x \<noteq> NaN \<Longrightarrow> snd y \<noteq> NaN \<Longrightarrow> js_gt (byRateDesc x y) (Fin 0) = js_lt (snd x) (snd y)"
  by (cases "snd x"; cases "snd y") (auto simp: byRateDesc_def js_gt_def js_sub_def)

lemma not_lt_ge: "a \<noteq> NaN \<Longrightarrow> b \<noteq> NaN \<Longrightarrow> \<not> js_lt a b \<Longrightarrow> js_ge a b"
  by (cases a; cases b) auto

lemma lt_ge: "js_lt a b \<Longrightarrow> js_ge b a"
  by (cases a; cases b) auto

lemma sorted_insertBy:
  assumes "snd x \<noteq> NaN" and "\<forall>y \<in> set ys. snd y \<noteq> NaN" and "sorted_wrt descByRate ys"
  shows "sorted_wrt descByRate (insertBy byRateDesc x ys)"
  using assms
proof (induction ys)
  case Nil
  then show ?case by simp
next
  case (Cons y ys)
  show ?case
  proof (cases "js_lt (snd x) (snd y)")
    case True
    with Cons show ?thesis
      by (auto simp: byRateDesc_gt set_insertBy descByRate_def lt_ge)
  next
    case False
    with Cons.prems have xy: "js_ge (snd x) (snd y)" by (simp add: not_lt_ge)
    have "\<forall>z \<in> set ys. js_ge (snd x) (snd z)"
      using Cons.prems xy by (auto simp: descByRate_def intro: js_ge_trans)
    with False xy Cons.prems show ?thesis
      by (auto simp: byRateDesc_gt descByRate_def)
  qed
qed

lemma sorted_arraySort:
  "\<forall>y \<in> set xs. snd y \<noteq> NaN \<Longrightarrow> sorted_wrt descByRate (arraySort byRateDesc xs)"
proof (induction xs)
  case Nil
  then show ?case by (simp add: arraySort_def)
next
  case (Cons x xs)
  then have "sorted_wrt descByRate (arraySort byRateDesc xs)" by simp
  moreover have "\<forall>y \<in> set (arraySort byRateDesc xs). snd y \<noteq> NaN"
    using Cons.prems mset_arraySort [of byRateDesc xs] by (metis list.set_intros(2) set_mset_mset)
  ultimately show ?case using Cons.prems sorted_insertBy [of x "arraySort byRateDesc xs"]
    by (simp add: arraySort_def)
qed

lemma rowLabel_buildBars: "map rowLabel (buildBars (Some dm) cf w) = map fst (barEntries dm)"
  by (simp add: buildBars_def orEmpty_def barRowOf_def Let_def comp_def)

lemma exData_entries: "barEntries exData = [(''C'', Fin 0.9), (''A'', Fin 0.5), (''B'', NInf)]"
  by (simp add: barEntries_def exData_def arraySort_def byRateDesc_def js_sub_def js_gt_def)

text \<open>
  C7. The entries of the bar list carry, for each name of the data, the bare number or
  the record's \<open>rate\<close>, and \<open>-Infinity\<close> when the rate is missing; the rows are emitted in
  the order of the entries, and when no rate is NaN that order is descending by rate. For the data \<open>{A: 0.5, B: null, C: 0.9}\<close> the rows are \<open>[C, A, B]\<close>.
\<close>

theorem bars_ranked_descending:
  assumes "\<forall>e \<in> set dm. rateOf (snd e) \<noteq> Num NaN"
  shows "mset (barEntries dm)
           = mset (map (\<lambda>(name, v). (name, case v of DNum r \<Rightarrow> r | DRec c (Num r) \<Rightarrow> r | _ \<Rightarrow> NInf)) dm)
       \<and> sorted_wrt descByRate (barEntries dm)
       \<and> map rowLabel (buildBars (Some dm) colorForRate w) = map fst (barEntries dm)
       \<and> map rowLabel (buildBars (Some exData) colorForRate w) = [''C'', ''A'', ''B'']"
proof -
  have ex: "(\<lambda>(name, v). (name, rateOrNegInf (rateOf v)))
          = (\<lambda>(name, v). (name, case v of DNum r \<Rightarrow> r | DRec c (Num r) \<Rightarrow> r | _ \<Rightarrow> NInf))"
    by (auto simp: fun_eq_iff split: datum.splits jsval.splits)
  have perm: "mset (barEntries dm)
           = mset (map (\<lambda>(name, v). (name, case v of DNum r \<Rightarrow> r | DRec c (Num r) \<Rightarrow> r | _ \<Rightarrow> NInf)) dm)"
    unfolding barEntries_def mset_arraySort ex ..
  have "\<forall>y \<in> set (map (\<lambda>(name, v). (name, rateOrNegInf (rateOf v))) dm). snd y \<noteq> NaN"
  proof
    fix y assume "y \<in> set (map (\<lambda>(name, v). (name, rateOrNegInf (rateOf v))) dm)"
    then obtain n v where nv: "(n, v) \<in> set dm" "y = (n, rateOrNegInf (rateOf v))" by auto
    with assms have "rateOf v \<noteq> Num NaN" by force
    with nv show "snd y \<noteq> NaN" by (cases "rateOf v") auto
  qed
  then have srt: "sorted_wrt descByRate (barEntries dm)"
    unfolding barEntries_def by (rule sorted_arraySort)
  show ?thesis using perm srt by (simp add: rowLabel_buildBars exData_entries)
qed

theorem bars_ranked_descending_witness:
  "sorted_wrt descByRate (barEntries exData)
   \<and> barEntries exData = [(''C'', Fin 0.9), (''A'', Fin 0.5), (''B'', NInf)]
   \<and> map rowLabel (buildBars (Some exData) (makeColorForRate None None) Undefined) = [''C'', ''A'', ''B'']"
proof -
  have h: "\<forall>e \<in> set exData. rateOf (snd e) \<noteq> Num NaN" by (simp add: exData_def)
  from bars_ranked_descending [OF h, of "makeColorForRate None None" Undefined] exData_entries
  show ?thesis by simp
qed

lemma exNaNData_entries:
  "barEntries exNaNData = [(''A'', Fin 0.9), (''B'', Fin 0.5), (''C'', NaN), (''D'', Fin 0.7)]"
  by (simp add: barEntries_def exNaNData_def arraySort_def byRateDesc_def js_sub_def js_gt_def)

text \<open>
  With the data \<open>{A: 0.9, B: 0.5, C: NaN, D: 0.7}\<close> the NaN is kept as the sort key,
  every comparison with it is NaN, and the rows come out as \<open>[A, B, C, D]\<close>: \<open>B\<close> (0.5)
  before \<open>D\<close> (0.7).
\<close>

theorem bars_nan_rate_counterexample:
  "map rowLabel (buildBars (Some exNaNData) (makeColorForRate None None) Undefined)
     = [''A'', ''B'', ''C'', ''D'']
   \<and> barEntries exNaNData = [(''A'', Fin 0.9), (''B'', Fin 0.5), (''C'', NaN), (''D'', Fin 0.7)]
   \<and> \<not> sorted_wrt descByRate (barEntries exNaNData)
   \<and> \<not> js_ge (Fin 0.5) (Fin 0.7)"
  by (simp add: buildBars_def orEmpty_def barRowOf_def Let_def comp_def exNaNData_entries descByRate_def)

text \<open>
  A row whose entry has a missing rate: the value label is \<open>0%\<close>.
\<close>

lemma missing_rate_row:
  "rowValue (barRowOf cf w (name, NInf)) = ''0%''"
  by (simp add: barRowOf_def clampOrZero_def clamp01_def fmtPct_def show_int_def show_nat.simps digit_char_def Let_def)

text \<open>
  C8. The specification asks for the \<open>-\<close> placeholder in the value label of a row
  whose rate is missing. For the data \<open>{A: 0.5, B: null, C: 0.9}\<close> the value labels are
  \<open>90%\<close>, \<open>50%\<close> and, for \<open>B\<close>, \<open>0%\<close>: the row formats \<open>r = _clamp01(rRaw) || 0\<close>, which is
  never \<open>null\<close>, so the placeholder branch of \<open>_fmtPct\<close> is not reached.
\<close>

theorem missing_rate_shows_zero_percent:
  "map rowValue (buildBars (Some exData) (makeColorForRate None None) Undefined) = [''90%'', ''50%'', ''0%'']
   \<and> fmtPct None = ''-''"
  by (simp add: buildBars_def orEmpty_def exData_entries barRowOf_def clampOrZero_def clamp01_def
      js_min_def js_max_def fmtPct_def show_int_def show_nat.simps digit_char_def Let_def)

section \<open>Pie glyph: properties\<close>

lemma pieTotal_all_zero:
  assumes "fl 0 = Fin 0" and "\<forall>item \<in> set items. orZero (itemData item) = Fin 0"
  shows "pieTotal fl (Fin 0) items = Fin 0"
  using assms(2) by (induction items) (simp_all add: addDouble_def assms(1))

lemma orZero_zero_iff: "orZero v = Fin 0 \<longleftrightarrow> v \<in> {Undefined, Null, Num NaN, Num (Fin 0)}"
  by (cases v rule: orZero.cases) (auto split: if_splits elim: truthy.elims)

text \<open>
  C9. Provided that rounding leaves 0 as it is, a list of pie values each of which is
  zero, missing, \<open>null\<close> or NaN gives an empty glyph: no slice path. So does, more
  generally, every list for which the total that the loop accumulates is 0; the guard is
  \<open>total === 0\<close>.
\<close>

theorem pie_all_zero_empty:
  assumes "fl 0 = Fin 0"
  shows "((\<forall>item \<in> set items. itemData item \<in> {Undefined, Null, Num NaN, Num (Fin 0)})
            \<longrightarrow> slices (createPieChart fl cx cy items opts) = [])
       \<and> (pieTotal fl (Fin 0) items = Fin 0 \<longrightarrow> slices (createPieChart fl cx cy items opts) = [])"
proof -
  have "pieTotal fl (Fin 0) items = Fin 0"
    if "\<forall>item \<in> set items. itemData item \<in> {Undefined, Null, Num NaN, Num (Fin 0)}"
    using that by (intro pieTotal_all_zero [of fl, OF assms]) (simp add: orZero_zero_iff)
  then show ?thesis by (auto simp: createPieChart_def)
qed

theorem pie_all_zero_empty_witness:
  "slices (createPieChart Fin (Fin 10) (Fin 10)
      [pieOf (Num (Fin 0)), pieOf Null, pieOf (Num NaN), pieOf Undefined] exPieOpts) = []
   \<and> slices (createPieChart Fin (Fin 10) (Fin 10) [pieOf (Num (Fin 1)), pieOf (Num (Fin (- 1)))] exPieOpts) = []"
proof -
  have h: "Fin 0 = Fin 0" by simp
  have a: "\<forall>item \<in> set [pieOf (Num (Fin 0)), pieOf Null, pieOf (Num NaN), pieOf Undefined].
             itemData item \<in> {Undefined, Null, Num NaN, Num (Fin 0)}"
    by (simp add: pieOf_def)
  have b: "pieTotal Fin (Fin 0) [pieOf (Num (Fin 1)), pieOf (Num (Fin (- 1)))] = Fin 0"
    by (simp add: pieOf_def addDouble_def)
  from pie_all_zero_empty [of Fin, OF h, of "[pieOf (Num (Fin 0)), pieOf Null, pieOf (Num NaN), pieOf Undefined]"
        "Fin 10" "Fin 10" exPieOpts] a
  have 1: "slices (createPieChart Fin (Fin 10) (Fin 10)
      [pieOf (Num (Fin 0)), pieOf Null, pieOf (Num NaN), pieOf Undefined] exPieOpts) = []" by blast
  from pie_all_zero_empty [of Fin, OF h, of "[pieOf (Num (Fin 1)), pieOf (Num (Fin (- 1)))]"
        "Fin 10" "Fin 10" exPieOpts] b
  have 2: "slices (createPieChart Fin (Fin 10) (Fin 10) [pieOf (Num (Fin 1)), pieOf (Num (Fin (- 1)))] exPieOpts) = []"
    by blast
  from 1 2 show ?thesis by simp
qed

text \<open>
  The single value \<open>-1\<close> has a non-positive sum and still gets a slice of 360 degrees.
\<close>

theorem pie_negative_sum_counterexample:
  "\<not> (js_ge (Fin 0) (pieTotal Fin (Fin 0) [pieOf (Num (Fin (- 1)))])
       \<longrightarrow> slices (createPieChart Fin (Fin 0) (Fin 0) [pieOf (Num (Fin (- 1)))] exPieOpts) = [])"
  by (simp add: createPieChart_def pieOf_def exPieOpts_def Let_def addDouble_def)

section \<open>Callouts: properties\<close>

lemma elements_expandViewBox [simp]: "elements (expandViewBox s bb co) = elements s"
  by (simp add: expandViewBox_def Let_def split: prod.splits)

lemma calloutLoop_elements:
  assumes "elements s' = elements s"
  shows "calloutLoop fmt s' cm dm bb co = calloutLoop fmt s cm dm bb co"
proof -
  have g: "\<And>code. getElementById s' code = getElementById s code"
    using assms by (simp add: getElementById_def)
  show ?thesis by (induction cm) (auto simp: g split: option.splits)
qed

lemma last_group:
  "last (calloutGroups (buildCallouts fmt s cm dm bb (Some co))) = calloutLoop fmt s cm (orEmpty dm) bb co"
  by (simp add: buildCallouts_def Let_def
      calloutLoop_elements [of "expandViewBox s bb co" s, OF elements_expandViewBox])

lemma calloutLoop_map:
  "calloutLoop fmt s cm dm bb co
     = map (\<lambda>(name, code). calloutOf fmt co dm bb name
              (bbox (the (getElementById s code))))
         (foundRegions s cm)"
  by (induction cm) (auto simp: foundRegions_def split: option.splits)

lemma viewBox_buildCallouts:
  "viewBox (buildCallouts fmt s cm dm bb (Some co)) = viewBox (expandViewBox s bb co)"
  by (simp add: buildCallouts_def Let_def)

lemma exFrame_computed: "computeBBox sb exSurface = exFrame"
  by (simp add: computeBBox_def pathBoxes_def exSurface_def frameOf_def exFrame_def js_min_def
      js_max_def js_sub_def)

text \<open>
  C3. On a surface without viewBox, with a frame of width \<open>W\<close> and the options
  \<open>padding = p\<close> and \<open>margin = m\<close>, one pass of the callout router leaves the viewBox width
  \<open>W + 2 (p + m)\<close>. A second pass on the same surface reads the widened viewBox and
  widens it again: the width is then \<open>W + 4 (p + m)\<close>.
\<close>

theorem viewbox_expansion_compounds:
  assumes "viewBox s = None" and "frameW bb = Fin W"
    and "padding co = Num (Fin p)" and "margin co = Num (Fin m)"
  shows "viewBoxWidth (buildCallouts fmt s cm dm bb (Some co)) = Some (Fin (W + 2 * (p + m)))
       \<and> viewBoxWidth (buildCallouts fmt (buildCallouts fmt s cm dm bb (Some co)) cm dm bb (Some co))
           = Some (Fin (W + 4 * (p + m)))"
proof -
  have pz: "orZero (Num (Fin p)) = Fin p" "orZero (Num (Fin m)) = Fin m" by auto
  obtain vx vy vw vh where vb1: "viewBox (expandViewBox s bb co) = Some (vx, vy, vw, vh)"
    by (cases "viewBox (expandViewBox s bb co)") (auto simp: expandViewBox_def Let_def split: prod.splits)
  have w1: "vw = Fin (W + 2 * (p + m))"
    using vb1 assms pz by (auto simp: expandViewBox_def Let_def)
  have one: "viewBoxWidth (buildCallouts fmt s cm dm bb (Some co)) = Some (Fin (W + 2 * (p + m)))"
    using vb1 w1 by (simp add: viewBoxWidth_def viewBox_buildCallouts)
  have "viewBox (buildCallouts fmt s cm dm bb (Some co)) = Some (vx, vy, vw, vh)"
    using vb1 by (simp add: viewBox_buildCallouts)
  then have "viewBoxWidth (buildCallouts fmt (buildCallouts fmt s cm dm bb (Some co)) cm dm bb (Some co))
       = Some (Fin (W + 4 * (p + m)))"
    using w1 assms pz by (simp add: viewBoxWidth_def viewBox_buildCallouts expandViewBox_def Let_def)
  with one show ?thesis by simp
qed

theorem viewbox_expansion_compounds_witness:
  "viewBoxWidth (buildCallouts exLocale exSurface exCodeMap None exFrame (Some (exCalloutOpts 12 8)))
     = Some (Fin 340)
   \<and> viewBoxWidth (buildCallouts exLocale
        (buildCallouts exLocale exSurface exCodeMap None exFrame (Some (exCalloutOpts 12 8)))
        exCodeMap None exFrame (Some (exCalloutOpts 12 8))) = Some (Fin 380)"
proof -
  have h: "viewBox exSurface = None" "frameW exFrame = Fin 300"
      "padding (exCalloutOpts 12 8) = Num (Fin 12)" "margin (exCalloutOpts 12 8) = Num (Fin 8)"
    by (simp_all add: exSurface_def exFrame_def exCalloutOpts_def)
  from viewbox_expansion_compounds [OF h, of exLocale exCodeMap None] show ?thesis by simp
qed

text \<open>
  With \<open>W = 300\<close> and a padding of 20 the second pass gives 380, not 340.
\<close>

theorem viewbox_second_pass_counterexample:
  "viewBoxWidth (buildCallouts exLocale
        (buildCallouts exLocale exSurface exCodeMap None exFrame (Some (exCalloutOpts 20 0)))
        exCodeMap None exFrame (Some (exCalloutOpts 20 0))) = Some (Fin 380)
   \<and> viewBoxWidth (buildCallouts exLocale
        (buildCallouts exLocale exSurface exCodeMap None exFrame (Some (exCalloutOpts 20 0)))
        exCodeMap None exFrame (Some (exCalloutOpts 20 0))) \<noteq> Some (Fin (300 + 2 * 20))"
  by (simp add: viewBoxWidth_def viewBox_buildCallouts expandViewBox_def Let_def exSurface_def
      exFrame_def exCalloutOpts_def)

lemma calloutOf_side:
  "(textAnchor (calloutOf fmt co dm bb name b) = ''end'') = js_lt (pinX (calloutOf fmt co dm bb name b)) (frameCx bb)"
  "textX (calloutOf fmt co dm bb name b) =
     (if js_lt (pinX (calloutOf fmt co dm bb name b)) (frameCx bb)
      then js_sub (frameX bb) (orZero (padding co))
      else js_add (js_add (frameX bb) (frameW bb)) (orZero (padding co)))"
  "pinX (calloutOf fmt co dm bb name b)
     = js_add (js_add (boxX b) (js_div (boxWidth b) (Fin 2))) (fst (offsetOf (offsets co) name))"
  by (simp_all add: calloutOf_def Let_def)

text \<open>
  C4. The router emits one callout per region whose element is found, in the order of
  the code map. Its anchor is the centre of the region's box plus the region's offset;
  its text is anchored \<open>end\<close> (the left side) exactly when the anchor's x is strictly
  less than \<open>frame.cx\<close>, and \<open>start\<close> otherwise; the text is placed at
  \<open>frame.x - pad\<close> on the left and at \<open>frame.x + frame.w + pad\<close> on the right, where
  \<open>pad\<close> is \<open>options.padding || 0\<close> alone: \<open>options.margin\<close> only widens the viewBox.
\<close>

theorem callout_side_and_margin:
  "length (last (calloutGroups (buildCallouts fmt s cm dm bb (Some co)))) = length (foundRegions s cm)
   \<and> (\<forall>i < length (foundRegions s cm).
        (let c = last (calloutGroups (buildCallouts fmt s cm dm bb (Some co))) ! i;
             name = fst (foundRegions s cm ! i);
             code = snd (foundRegions s cm ! i)
         in (\<exists>el. getElementById s code = Some el \<and> pinX c = regionAnchorX co name el)
          \<and> (textAnchor c = ''end'' \<longleftrightarrow> js_lt (pinX c) (frameCx bb))
          \<and> (textAnchor c = ''start'' \<longleftrightarrow> \<not> js_lt (pinX c) (frameCx bb))
          \<and> textX c = (if js_lt (pinX c) (frameCx bb)
                       then js_sub (frameX bb) (orZero (padding co))
                       else js_add (js_add (frameX bb) (frameW bb)) (orZero (padding co)))))"
proof -
  let ?regs = "foundRegions s cm"
  let ?group = "last (calloutGroups (buildCallouts fmt s cm dm bb (Some co)))"
  have grp: "?group = map (\<lambda>(name, code). calloutOf fmt co (orEmpty dm) bb name
              (bbox (the (getElementById s code)))) ?regs"
    by (simp add: last_group calloutLoop_map)
  have len: "length ?group = length ?regs" by (simp add: grp)
  have "\<forall>i < length ?regs.
        (let c = ?group ! i; name = fst (?regs ! i); code = snd (?regs ! i)
         in (\<exists>el. getElementById s code = Some el \<and> pinX c = regionAnchorX co name el)
          \<and> (textAnchor c = ''end'' \<longleftrightarrow> js_lt (pinX c) (frameCx bb))
          \<and> (textAnchor c = ''start'' \<longleftrightarrow> \<not> js_lt (pinX c) (frameCx bb))
          \<and> textX c = (if js_lt (pinX c) (frameCx bb)
                       then js_sub (frameX bb) (orZero (padding co))
                       else js_add (js_add (frameX bb) (frameW bb)) (orZero (padding co))))"
  proof (intro allI impI)
    fix i assume i: "i < length ?regs"
    obtain name code where nc: "?regs ! i = (name, code)" by (cases "?regs ! i")
    from i have "?regs ! i \<in> set ?regs" by simp
    with nc obtain el where el: "getElementById s code = Some el"
      by (auto simp: foundRegions_def)
    have c: "?group ! i = calloutOf fmt co (orEmpty dm) bb name (bbox el)"
      using i nc el by (simp add: grp)
    show "(let c = ?group ! i; name = fst (?regs ! i); code = snd (?regs ! i)
         in (\<exists>el. getElementById s code = Some el \<and> pinX c = regionAnchorX co name el)
          \<and> (textAnchor c = ''end'' \<longleftrightarrow> js_lt (pinX c) (frameCx bb))
          \<and> (textAnchor c = ''start'' \<longleftrightarrow> \<not> js_lt (pinX c) (frameCx bb))
          \<and> textX c = (if js_lt (pinX c) (frameCx bb)
                       then js_sub (frameX bb) (orZero (padding co))
                       else js_add (js_add (frameX bb) (frameW bb)) (orZero (padding co))))"
      unfolding Let_def c nc fst_conv snd_conv
      by (simp add: el regionAnchorX_def calloutOf_def Let_def)
  qed
  with len show ?thesis by blast
qed

lemma ex_group:
  "map (\<lambda>c. (pinX c, textAnchor c, textX c))
     (last (calloutGroups (buildCallouts exLocale exSurface exCodeMap None exFrame (Some (exCalloutOpts p m)))))
   = [(Fin 50, ''end'', Fin (- p)), (Fin 250, ''start'', Fin (300 + p))]"
  by (simp add: last_group orEmpty_def exCodeMap_def exSurface_def getElementById_def
      calloutOf_def Let_def offsetOf_def exCalloutOpts_def exFrame_def js_sub_def)

theorem callout_side_and_margin_witness:
  "foundRegions exSurface exCodeMap = exCodeMap
   \<and> map (\<lambda>c. (pinX c, textAnchor c, textX c))
       (last (calloutGroups (buildCallouts exLocale exSurface exCodeMap None exFrame (Some (exCalloutOpts 20 0)))))
     = [(Fin 50, ''end'', Fin (- 20)), (Fin 250, ''start'', Fin 320)]
   \<and> length (last (calloutGroups (buildCallouts exLocale exSurface exCodeMap None exFrame (Some (exCalloutOpts 20 0))))) = 2"
proof -
  have r: "foundRegions exSurface exCodeMap = exCodeMap"
    by (simp add: foundRegions_def exCodeMap_def exSurface_def getElementById_def)
  from callout_side_and_margin [of exLocale exSurface exCodeMap None exFrame "exCalloutOpts 20 0"]
    r ex_group [of 20 0]
  show ?thesis by (simp add: exCodeMap_def)
qed

lemma ex_group_textX:
  "map textX (last (calloutGroups (buildCallouts exLocale exSurface exCodeMap None exFrame (Some (exCalloutOpts p m)))))
   = [Fin (- p), Fin (300 + p)]"
proof -
  have "map textX (last (calloutGroups (buildCallouts exLocale exSurface exCodeMap None exFrame (Some (exCalloutOpts p m)))))
     = map (\<lambda>t. snd (snd t)) (map (\<lambda>c. (pinX c, textAnchor c, textX c))
       (last (calloutGroups (buildCallouts exLocale exSurface exCodeMap None exFrame (Some (exCalloutOpts p m))))))"
    by (simp add: comp_def)
  then show ?thesis unfolding ex_group by simp
qed

text \<open>
  With padding 20 and margin 10 the texts are at \<open>-20\<close> and \<open>320\<close>, not at
  \<open>0 - (20 + 10)\<close> and \<open>0 + 300 + (20 + 10)\<close>.
\<close>

theorem callout_margin_counterexample:
  "map textX (last (calloutGroups (buildCallouts exLocale exSurface exCodeMap None exFrame (Some (exCalloutOpts 20 10)))))
     = [Fin (- 20), Fin 320]
   \<and> map textX (last (calloutGroups (buildCallouts exLocale exSurface exCodeMap None exFrame (Some (exCalloutOpts 20 10)))))
     \<noteq> [Fin (0 - (20 + 10)), Fin (0 + 300 + (20 + 10))]"
  unfolding ex_group_textX by simp

text \<open>
  C10. Without a custom formatter, the callout of every found region whose datum is a
  bare number has the text \<open><name> : -\<close>: the count is taken as absent.
\<close>

theorem bare_number_callout_text:
  assumes "formatter co = None"
  shows "length (last (calloutGroups (buildCallouts fmt s cm (Some dm) bb (Some co)))) = length (foundRegions s cm)
       \<and> (\<forall>i < length (foundRegions s cm).
            (\<exists>r. map_of dm (fst (foundRegions s cm ! i)) = Some (DNum r)) \<longrightarrow>
            textContent (last (calloutGroups (buildCallouts fmt s cm (Some dm) bb (Some co))) ! i)
              = fst (foundRegions s cm ! i) @ '' : -'')"
proof -
  let ?regs = "foundRegions s cm"
  let ?group = "last (calloutGroups (buildCallouts fmt s cm (Some dm) bb (Some co)))"
  have grp: "?group = map (\<lambda>(name, code). calloutOf fmt co dm bb name
              (bbox (the (getElementById s code)))) ?regs"
    by (simp add: last_group calloutLoop_map orEmpty_def)
  have "\<forall>i < length ?regs. (\<exists>r. map_of dm (fst (?regs ! i)) = Some (DNum r)) \<longrightarrow>
            textContent (?group ! i) = fst (?regs ! i) @ '' : -''"
  proof (intro allI impI)
    fix i assume i: "i < length ?regs" and "\<exists>r. map_of dm (fst (?regs ! i)) = Some (DNum r)"
    then obtain r where r: "map_of dm (fst (?regs ! i)) = Some (DNum r)" by blast
    obtain name code where nc: "?regs ! i = (name, code)" by (cases "?regs ! i")
    with i r show "textContent (?group ! i) = fst (?regs ! i) @ '' : -''"
      using assms by (simp add: grp calloutOf_def Let_def calloutText_def countOf_def fmtInt_def)
  qed
  then show ?thesis by (simp add: grp)
qed

theorem bare_number_callout_text_witness:
  "map textContent (last (calloutGroups (buildCallouts exLocale exSurface exCodeMap
       (Some exCountData)
       exFrame (Some (exCalloutOpts 20 0)))))
   = [''West : -'', ''East : 4339'']"
proof -
  have h: "formatter (exCalloutOpts 20 0) = None" by (simp add: exCalloutOpts_def)
  have ev: "map textContent (last (calloutGroups (buildCallouts exLocale exSurface exCodeMap
       (Some exCountData)
       exFrame (Some (exCalloutOpts 20 0)))))
   = [''West : -'', ''East : 4339'']"
    by (simp add: last_group orEmpty_def exCodeMap_def exSurface_def getElementById_def
      calloutOf_def Let_def calloutText_def countOf_def fmtInt_def exCalloutOpts_def exLocale_def
      exCountData_def
      show_int_def show_nat.simps digit_char_def)
  from bare_number_callout_text [OF h, of exLocale exSurface exCodeMap exCountData exFrame] ev show ?thesis by simp
qed

section \<open>Interaction controller: properties\<close>

lemma getElementById_SomeD:
  "getElementById s code = Some p \<Longrightarrow> p \<in> set (elements s) \<and> elemId p = Some code"
  by (auto simp: getElementById_def find_Some_iff)

lemma distinctIds_unique:
  assumes "distinctIds s" and "e1 \<in> set (elements s)" and "e2 \<in> set (elements s)"
    and "elemId e1 = Some code" and "elemId e2 = Some code"
  shows "e1 = e2"
proof -
  let ?ys = "filter (\<lambda>e. elemId e \<noteq> None) (elements s)"
  from assms(1) have "inj_on elemId (set ?ys)" by (simp add: distinctIds_def distinct_map)
  moreover from assms have "e1 \<in> set ?ys" "e2 \<in> set ?ys" by simp_all
  ultimately show ?thesis using assms(4,5) by (intro inj_onD [of elemId "set ?ys"]) simp_all
qed

lemma updStyle_keeps [simp]:
  "listeners (updStyle n f s) = listeners s"
  "originalStyles (updStyle n f s) = originalStyles s"
  "elements (updStyle n f s) = elements s"
  by (simp_all add: updStyle_def)

lemma set_remove1_append: "e \<in> set xs \<Longrightarrow> set (remove1 e xs @ [e]) = set xs"
  by (induction xs) auto

lemma raiseToTop_keeps [simp]:
  "listeners (raiseToTop e s) = listeners s"
  "originalStyles (raiseToTop e s) = originalStyles s"
  "e \<in> set (elements s) \<Longrightarrow> set (elements (raiseToTop e s)) = set (elements s)"
  using set_remove1_append [of e "elements s"] by (simp_all add: raiseToTop_def)

lemma raiseNode_keeps [simp]:
  "listeners (raiseNode n s) = listeners s"
  "originalStyles (raiseNode n s) = originalStyles s"
  "set (elements (raiseNode n s)) = set (elements s)"
  by (auto simp: raiseNode_def find_Some_iff split: option.splits)

lemma raiseInnerCities_keeps [simp]:
  "listeners (raiseInnerCities cm ics s) = listeners s"
  "originalStyles (raiseInnerCities cm ics s) = originalStyles s"
  "set (elements (raiseInnerCities cm ics s)) = set (elements s)"
  by (induction cm ics s rule: raiseInnerCities.induct)
     (auto dest: getElementById_SomeD split: option.splits)

lemma shadowOn_keeps [simp]:
  "listeners (shadowOn ev c n s) = listeners s"
  "originalStyles (shadowOn ev c n s) = originalStyles s"
  "elements (shadowOn ev c n s) = elements s"
  by (simp_all add: shadowOn_def split: option.splits)

lemma logCall_keeps [simp]:
  "surface (logCall g cb name dm c) = surface c"
  "selectedPath (logCall g cb name dm c) = selectedPath c"
  by (simp_all add: logCall_def)

lemma handlersBound_logCall [simp]: "handlersBound (logCall g cb name dm c) = handlersBound c"
  by (simp add: handlersBound_def split: option.splits)

text \<open>
  The invariant depends on the session only through these parts.
\<close>

lemma handlersBound_cong:
  assumes "handlersBound c"
    and "listeners (surface c') = listeners (surface c)"
    and "originalStyles (surface c') = originalStyles (surface c)"
    and "set (elements (surface c')) = set (elements (surface c))"
    and "selectedPath c' = selectedPath c"
  shows "handlersBound c'"
  using assms by (simp add: handlersBound_def split: option.splits)

lemma deselectRegion_ok:
  assumes "handlersBound c"
  shows "\<exists>c'. deselectRegion ev c = Inr c' \<and> handlersBound c' \<and> selectedPath c' = None"
  using assms by (auto simp: deselectRegion_def handlersBound_def split: option.splits)

lemma listener_bound:
  assumes "handlersBound c" and "listenerCode (surface c) name = Some code"
    and "getElementById (surface c) code = Some p"
  shows "originalStyles (surface c) (node p) \<noteq> None"
proof -
  from assms(2) obtain n where "map_of (listeners (surface c)) name = Some (code, n)"
    by (auto simp: listenerCode_def)
  then have "(name, code, n) \<in> set (listeners (surface c))" by (rule map_of_SomeD)
  with assms(1) getElementById_SomeD [OF assms(3)] show ?thesis
    by (force simp: handlersBound_def)
qed

lemma mouseenter_ok:
  assumes "handlersBound c"
  shows "\<exists>c'. mouseenter cm ev ics dm name code c = Inr c' \<and> handlersBound c'"
proof (cases "getElementById (surface c) code")
  case None
  with assms show ?thesis by (simp add: mouseenter_def)
next
  case (Some p)
  then have p: "p \<in> set (elements (surface c))" by (simp add: getElementById_SomeD)
  let ?s1 = "(if name \<notin> set ics
                     then raiseInnerCities cm ics
                            (case selectedPath c of
                               None \<Rightarrow> raiseToTop p (surface c)
                             | Some sp \<Rightarrow> raiseNode sp (raiseToTop p (surface c)))
                     else surface c)"
  have k: "listeners ?s1 = listeners (surface c)" "originalStyles ?s1 = originalStyles (surface c)"
      "set (elements ?s1) = set (elements (surface c))"
    using p by (auto split: option.splits)
  have "handlersBound (c\<lparr>surface := shadowOn ev c (node p)
           (updStyle (node p) (applyStyle (styleToApply ev name)) ?s1)\<rparr>)"
    by (rule handlersBound_cong [OF assms]) (simp_all add: k)
  with Some show ?thesis by (simp add: mouseenter_def Let_def)
qed

lemma mouseleave_ok:
  assumes "handlersBound c" and "listenerCode (surface c) name = Some code"
  shows "\<exists>c'. mouseleave ev dm name code c = Inr c' \<and> handlersBound c'"
proof (cases "getElementById (surface c) code")
  case None
  with assms show ?thesis by (simp add: mouseleave_def)
next
  case (Some p)
  from listener_bound [OF assms Some] obtain orig
    where orig: "originalStyles (surface c) (node p) = Some orig" by auto
  have "handlersBound (c\<lparr>surface := updStyle (node p) (restoreOriginal (shadow ev) orig) (surface c)\<rparr>)"
    by (rule handlersBound_cong [OF assms(1)]) simp_all
  with Some orig assms(1) show ?thesis by (simp add: mouseleave_def)
qed

lemma click_ok:
  assumes "handlersBound c" and "listenerCode (surface c) name = Some code"
  shows "\<exists>c'. click cm ev ics dm name code c = Inr c' \<and> handlersBound c'"
proof (cases "getElementById (surface c) code")
  case None
  with assms show ?thesis by (simp add: click_def)
next
  case (Some p)
  then have p: "p \<in> set (elements (surface c))" by (simp add: getElementById_SomeD)
  have po: "originalStyles (surface c) (node p) \<noteq> None" by (rule listener_bound [OF assms Some])
  have "\<exists>c1. (if selectedPath c \<noteq> None \<and> selectedPath c \<noteq> Some (node p)
                 then deselectRegion ev c else Inr c) = Inr c1 \<and> handlersBound c1
      \<and> originalStyles (surface c1) = originalStyles (surface c)
      \<and> elements (surface c1) = elements (surface c)"
  proof (cases "selectedPath c \<noteq> None \<and> selectedPath c \<noteq> Some (node p)")
    case True
    from deselectRegion_ok [OF assms(1), of ev]
    obtain c' where c': "deselectRegion ev c = Inr c'" "handlersBound c'" by blast
    from c'(1) have "originalStyles (surface c') = originalStyles (surface c)
        \<and> elements (surface c') = elements (surface c)"
      by (auto simp: deselectRegion_def split: option.splits)
    with c' True show ?thesis by simp
  next
    case False
    with assms(1) show ?thesis by auto
  qed
  then obtain c1 where c1: "(if selectedPath c \<noteq> None \<and> selectedPath c \<noteq> Some (node p)
                 then deselectRegion ev c else Inr c) = Inr c1" "handlersBound c1"
      "originalStyles (surface c1) = originalStyles (surface c)"
      "elements (surface c1) = elements (surface c)" by blast
  have p1: "p \<in> set (elements (surface c1))" using p c1(4) by simp
  have "handlersBound (if selectedPath c1 \<noteq> Some (node p)
                          then (let c' = selectRegion ev p name c1
                                in c'\<lparr>surface := raiseInnerCities cm ics
                                                    (raiseToTop p (surface c'))\<rparr>)
                          else c1)"
    using c1 po p1 by (auto simp: handlersBound_def Let_def selectRegion_def)
  with Some c1(1) show ?thesis by (simp add: click_def Let_def)
qed

lemma windowClick_ok:
  assumes "handlersBound c"
  shows "\<exists>c'. windowClick ev t c = Inr c' \<and> handlersBound c' \<and> (t \<longrightarrow> selectedPath c' = None)"
  using assms deselectRegion_ok [OF assms, of ev] by (auto simp: windowClick_def)

lemma dispatch_ok:
  assumes "handlersBound c"
  shows "\<exists>c'. dispatch cm ev ics dm c e = Inr c' \<and> handlersBound c'"
proof (cases e)
  case (MouseEnter name)
  then show ?thesis using assms mouseenter_ok [OF assms]
    by (cases "listenerCode (surface c) name") auto
next
  case (MouseLeave name)
  then show ?thesis using assms mouseleave_ok [OF assms]
    by (cases "listenerCode (surface c) name") auto
next
  case (Click name)
  show ?thesis
  proof (cases "listenerCode (surface c) name")
    case None
    with Click assms show ?thesis by simp
  next
    case (Some code)
    from click_ok [OF assms Some, of cm ev ics dm]
    obtain c1 where c1: "click cm ev ics dm name code c = Inr c1" "handlersBound c1" by blast
    from windowClick_ok [OF c1(2), of ev False] c1(1) Click Some show ?thesis by auto
  qed
next
  case (WindowClick t)
  then show ?thesis using windowClick_ok [OF assms, of ev t] by auto
qed

lemma dispatchAll_ok:
  assumes "handlersBound c"
  shows "fst (dispatchAll cm ev ics dm c es) = [] \<and> handlersBound (snd (dispatchAll cm ev ics dm c es))"
  using assms
proof (induction es arbitrary: c)
  case Nil
  then show ?case by simp
next
  case (Cons e es)
  from dispatch_ok [OF Cons.prems, of cm ev ics dm e]
  obtain c1 where c1: "dispatch cm ev ics dm c e = Inr c1" "handlersBound c1" by blast
  from Cons.IH [OF c1(2)] c1(1) show ?case by simp
qed

lemma dispatchAll_append:
  "dispatchAll cm ev ics dm c (es @ es') =
     (fst (dispatchAll cm ev ics dm c es) @ fst (dispatchAll cm ev ics dm (snd (dispatchAll cm ev ics dm c es)) es'),
      snd (dispatchAll cm ev ics dm (snd (dispatchAll cm ev ics dm c es)) es'))"
  by (induction es arbitrary: c) (auto split: sum.splits prod.splits)

lemma bindLoop_bound:
  assumes "distinctIds s"
    and "\<forall>l \<in> set (listeners s). \<forall>e \<in> set (elements s).
          elemId e = Some (fst (snd l)) \<longrightarrow> originalStyles s (node e) \<noteq> None"
  shows "\<forall>l \<in> set (listeners (bindLoop cm s)). \<forall>e \<in> set (elements (bindLoop cm s)).
          elemId e = Some (fst (snd l)) \<longrightarrow> originalStyles (bindLoop cm s) (node e) \<noteq> None"
  using assms
proof (induction cm arbitrary: s)
  case Nil
  then show ?case by simp
next
  case (Cons a rest)
  obtain name code where a: "a = (name, code)" by (cases a)
  show ?case
  proof (cases "getElementById s code")
    case None
    with Cons a show ?thesis by simp
  next
    case (Some p)
    define orig where "orig = \<lparr>origStroke = getProperty (styles s (node p)) ''stroke'',
                       origStrokeWidth = getProperty (styles s (node p)) ''stroke-width'',
                       origOpacity = getProperty (styles s (node p)) ''opacity'',
                       origCursor = getProperty (styles s (node p)) ''cursor'',
                       origFilter = getProperty (styles s (node p)) ''filter'',
                       origFill = getProperty (styles s (node p)) ''fill''\<rparr>"
    define s3 where "s3 = (updStyle (node p) (setProperty ''pointer-events'' ''auto'' False)
          (s\<lparr>originalStyles := (originalStyles s)(node p \<mapsto> orig)\<rparr>))
          \<lparr>listeners := listeners s @ [(name, code, node p)]\<rparr>"
    have step: "bindLoop (a # rest) s = bindLoop rest s3"
      using Some by (simp add: a Let_def s3_def orig_def)
    have el: "elements s3 = elements s" by (simp add: s3_def)
    have ls: "listeners s3 = listeners s @ [(name, code, node p)]" by (simp add: s3_def)
    have os: "originalStyles s3 = (originalStyles s)(node p \<mapsto> orig)" by (simp add: s3_def)
    have d3: "distinctIds s3" using Cons.prems(1) el by (simp add: distinctIds_def)
    from getElementById_SomeD [OF Some] have pin: "p \<in> set (elements s)" and pid: "elemId p = Some code"
      by simp_all
    have q3: "\<forall>l \<in> set (listeners s3). \<forall>e \<in> set (elements s3).
          elemId e = Some (fst (snd l)) \<longrightarrow> originalStyles s3 (node e) \<noteq> None"
    proof (intro ballI impI)
      fix l e assume l: "l \<in> set (listeners s3)" and e: "e \<in> set (elements s3)"
        and id: "elemId e = Some (fst (snd l))"
      from e el have ein: "e \<in> set (elements s)" by simp
      show "originalStyles s3 (node e) \<noteq> None"
      proof (cases "l = (name, code, node p)")
        case True
        with id have "elemId e = Some code" by simp
        from distinctIds_unique [OF Cons.prems(1) ein pin this pid] have "e = p" .
        then show ?thesis by (simp add: os)
      next
        case False
        with l ls have "l \<in> set (listeners s)" by simp
        with Cons.prems(2) ein id have "originalStyles s (node e) \<noteq> None" by blast
        then show ?thesis by (simp add: os)
      qed
    qed
    from Cons.IH [OF d3 q3] show ?thesis unfolding step .
  qed
qed

lemma bindRegionEvents_bound:
  assumes "distinctIds s" and "listeners s = []"
  shows "handlersBound (bindRegionEvents sfx s cm ev)"
proof -
  have "\<forall>l \<in> set (listeners (bindLoop cm s')). \<forall>e \<in> set (elements (bindLoop cm s')).
          elemId e = Some (fst (snd l)) \<longrightarrow> originalStyles (bindLoop cm s') (node e) \<noteq> None"
    if "elements s' = elements s" "listeners s' = []" for s'
    using that assms(1) by (intro bindLoop_bound) (simp_all add: distinctIds_def)
  then show ?thesis using assms
    by (auto simp: handlersBound_def bindRegionEvents_def Let_def)
qed

lemma card_selected: "card {n. isSelected c n} \<le> 1"
  by (cases "selectedPath c") (simp_all add: isSelected_def)

lemmas run_defs = handle_def noOptions_def noEvents_def bindRegionEvents_def
      getElementById_def Let_def updStyle_def mouseenter_def
      mouseleave_def click_def windowClick_def deselectRegion_def selectRegion_def
      raiseToTop_def raiseNode_def shadowOn_def logCall_def styleToApply_def listenerCode_def

lemma ex_run_selected:
  "selectedPath (snd (handle exCodeMap noOptions
      (bindRegionEvents ''k3x9'' exSurface exCodeMap noEvents) exEvents)) = Some 1"
  by (simp add: run_defs exEvents_def exCodeMap_def exSurface_def)

text \<open>
  C1. On a surface without listeners whose elements carry distinct ids, after
  \<open>_bindRegionEvents\<close> every finite sequence of \<open>mouseenter\<close>, \<open>mouseleave\<close> and \<open>click\<close>
  events on the regions and of clicks that reach the window runs without a handler
  throwing; afterwards at most one element is selected, and after a further click whose
  target is the root surface no element is selected.
\<close>

theorem single_selection:
  assumes "distinctIds s" and "listeners s = []"
  shows "fst (handle cm opts (bindRegionEvents sfx s cm (case events opts of None \<Rightarrow> noEvents | Some e \<Rightarrow> e)) evs) = []
       \<and> card {n. isSelected (snd (handle cm opts
             (bindRegionEvents sfx s cm (case events opts of None \<Rightarrow> noEvents | Some e \<Rightarrow> e)) evs)) n} \<le> 1
       \<and> fst (handle cm opts (bindRegionEvents sfx s cm (case events opts of None \<Rightarrow> noEvents | Some e \<Rightarrow> e))
             (evs @ [WindowClick True])) = []
       \<and> {n. isSelected (snd (handle cm opts
             (bindRegionEvents sfx s cm (case events opts of None \<Rightarrow> noEvents | Some e \<Rightarrow> e))
             (evs @ [WindowClick True]))) n} = {}"
proof -
  let ?ev = "case events opts of None \<Rightarrow> noEvents | Some e \<Rightarrow> e"
  let ?ics = "case innerCities opts of None \<Rightarrow> [] | Some ics \<Rightarrow> ics"
  let ?c0 = "bindRegionEvents sfx s cm ?ev"
  let ?r = "dispatchAll cm ?ev ?ics (data opts) ?c0 evs"
  have b0: "handlersBound ?c0" by (rule bindRegionEvents_bound [OF assms])
  from dispatchAll_ok [OF b0] have r: "fst ?r = []" "handlersBound (snd ?r)" by simp_all
  from windowClick_ok [OF r(2), of ?ev True]
  obtain c' where c': "windowClick ?ev True (snd ?r) = Inr c'" "selectedPath c' = None" by auto
  have "dispatchAll cm ?ev ?ics (data opts) ?c0 (evs @ [WindowClick True]) = ([], c')"
    using r(1) c'(1) by (simp add: dispatchAll_append)
  with r(1) c'(2) card_selected [of "snd ?r"] show ?thesis
    by (simp add: handle_def isSelected_def)
qed

theorem single_selection_witness:
  "fst (handle exCodeMap noOptions (bindRegionEvents ''k3x9'' exSurface exCodeMap noEvents) exEvents) = []
   \<and> selectedPath (snd (handle exCodeMap noOptions
        (bindRegionEvents ''k3x9'' exSurface exCodeMap noEvents) exEvents)) = Some 1
   \<and> card {n. isSelected (snd (handle exCodeMap noOptions
        (bindRegionEvents ''k3x9'' exSurface exCodeMap noEvents) exEvents)) n} \<le> 1
   \<and> fst (handle exCodeMap noOptions (bindRegionEvents ''k3x9'' exSurface exCodeMap noEvents)
        (exEvents @ [WindowClick True])) = []
   \<and> {n. isSelected (snd (handle exCodeMap noOptions
        (bindRegionEvents ''k3x9'' exSurface exCodeMap noEvents) (exEvents @ [WindowClick True]))) n} = {}"
proof -
  have h: "distinctIds exSurface" "listeners exSurface = []"
    by (simp_all add: distinctIds_def exSurface_def)
  have e: "(case events noOptions of None \<Rightarrow> noEvents | Some e \<Rightarrow> e) = noEvents"
    by (simp add: noOptions_def)
  from single_selection [OF h, of exCodeMap noOptions "''k3x9''" exEvents]
  show ?thesis unfolding e using ex_run_selected by simp
qed

text \<open>
  When two elements carry the id \<open>L\<close>, the first is bound; \<open>mouseenter\<close> moves it behind
  its twin, the click then finds and selects the twin, which has no saved styles, and
  the background click throws in \<open>deselectRegion\<close> and leaves the twin selected.
\<close>

theorem background_click_twin_counterexample:
  "fst (handle exTwinCodeMap noOptions (bindRegionEvents ''k3x9'' exTwinSurface exTwinCodeMap noEvents)
        [MouseEnter ''West'', Click ''West'', WindowClick True]) = [TypeError]
   \<and> selectedPath (snd (handle exTwinCodeMap noOptions
        (bindRegionEvents ''k3x9'' exTwinSurface exTwinCodeMap noEvents)
        [MouseEnter ''West'', Click ''West'', WindowClick True])) = Some 1
   \<and> isSelected (snd (handle exTwinCodeMap noOptions
        (bindRegionEvents ''k3x9'' exTwinSurface exTwinCodeMap noEvents)
        [MouseEnter ''West'', Click ''West'', WindowClick True])) 1"
  by (simp add: run_defs isSelected_def exTwinCodeMap_def exTwinSurface_def)

section \<open>Render: properties\<close>

text \<open>
  C2. When the document loads and the mode is missing, or is \<open>rate+bars\<close> without the
  \<open>bar\<close> option, or is \<open>count+callouts\<close> without the \<open>callouts\<close> option, \<open>render\<close> rejects
  with the matching error. By then the mount has been emptied and holds the loaded
  surface as its only child, and the surface has lost its authored fills; no region has
  been painted, no label placed, no handler bound, no bar list and no callout built.
\<close>

theorem render_rejects_after_mounting:
  assumes "loadSVG h (svgUrl (optionsOf optsArg)) = Some loaded"
    and "modeMissing (optionsOf optsArg)
         \<or> (mode (optionsOf optsArg) = Some ''rate+bars'' \<and> bar (optionsOf optsArg) = None)
         \<or> (mode (optionsOf optsArg) = Some ''count+callouts'' \<and> callouts (optionsOf optsArg) = None)"
  shows "rejectedWith (render h cm (Some el) optsArg) \<in> {Some ModeRequired, Some BarRequired, Some CalloutsRequired}
       \<and> map_option children (mountAfter (render h cm (Some el) optsArg)) = Some [SvgRoot]
       \<and> (\<exists>sv. surfaceAfter (render h cm (Some el) optsArg) = Some sv
                \<and> untouched loaded sv \<and> \<not> authorFills sv)"
  using assms
  by (auto simp: render_def optionsOf_def Let_def untouched_def clearSvgFillStyles_def
      split: option.splits)

theorem render_rejects_after_mounting_witness:
  "rejectedWith (render exHost exCodeMap (Some exMount) None) = Some ModeRequired
   \<and> map_option children (mountAfter (render exHost exCodeMap (Some exMount) None)) = Some [SvgRoot]
   \<and> map_option styles (surfaceAfter (render exHost exCodeMap (Some exMount) None)) = Some (styles exSurface)"
proof -
  have h: "loadSVG exHost (svgUrl (optionsOf None)) = Some exSurface"
      "modeMissing (optionsOf None)
         \<or> (mode (optionsOf None) = Some ''rate+bars'' \<and> bar (optionsOf None) = None)
         \<or> (mode (optionsOf None) = Some ''count+callouts'' \<and> callouts (optionsOf None) = None)"
    by (simp_all add: exHost_def optionsOf_def noOptions_def modeMissing_def)
  have r: "rejectedWith (render exHost exCodeMap (Some exMount) None) = Some ModeRequired"
    by (simp add: render_def exHost_def noOptions_def modeMissing_def Let_def)
  from render_rejects_after_mounting [OF h, of exCodeMap exMount] r
  show ?thesis by (auto simp: untouched_def)
qed

text \<open>
  A mount that holds an earlier chart, rendered without options: the promise rejects
  for the missing mode, and the mount's earlier content is gone and replaced by the
  surface.
\<close>

theorem render_no_side_effect_counterexample:
  "rejectedWith (render exHost exCodeMap (Some exMount) None) = Some ModeRequired
   \<and> map_option children (mountAfter (render exHost exCodeMap (Some exMount) None)) = Some [SvgRoot]
   \<and> map_option children (mountAfter (render exHost exCodeMap (Some exMount) None)) \<noteq> Some (children exMount)"
  by (simp add: render_def exHost_def noOptions_def modeMissing_def Let_def exMount_def)

end
